theory Spec2Isabelle
  imports Complex_Main "HOL-Library.Word"
begin

section \<open>JavaScript strings\<close>

text \<open>
  A JavaScript string is a sequence of UTF-16 code units; every offset that the converter
  receives or computes (\<open>range\<close>, \<open>index\<close>) counts code units. A character outside the
  Basic Multilingual Plane occupies two code units (a high and a low surrogate).
\<close>

type_synonym code_unit = "16 word"
type_synonym jsstring = "code_unit list"

definition js :: "string \<Rightarrow> jsstring" where
  "js s = map of_char s"

definition isHighSurrogate :: "code_unit \<Rightarrow> bool" where
  "isHighSurrogate c = (0xD800 \<le> c \<and> c \<le> 0xDBFF)"

definition isLowSurrogate :: "code_unit \<Rightarrow> bool" where
  "isLowSurrogate c = (0xDC00 \<le> c \<and> c \<le> 0xDFFF)"

text \<open>
  The white space and line terminator characters of ECMAScript: the set that the regular
  expression class \<open>\s\<close> matches and that \<open>String.prototype.trim\<close> removes.
\<close>

definition isWhiteSpace :: "code_unit \<Rightarrow> bool" where
  "isWhiteSpace c =
     (c = 0x09 \<or> c = 0x0A \<or> c = 0x0B \<or> c = 0x0C \<or> c = 0x0D \<or> c = 0x20 \<or> c = 0xA0
      \<or> c = 0x1680 \<or> (0x2000 \<le> c \<and> c \<le> 0x200A) \<or> c = 0x2028 \<or> c = 0x2029
      \<or> c = 0x202F \<or> c = 0x205F \<or> c = 0x3000 \<or> c = 0xFEFF)"

text \<open>
  \<open>s.slice(a, b)\<close> and \<open>s.slice(a)\<close>: a negative index counts from the end, both
  indices are clamped to the string, and an empty string results when the start is not
  before the end.
\<close>

definition relIndex :: "int \<Rightarrow> int \<Rightarrow> nat" where
  "relIndex len k = nat (if k < 0 then max (len + k) 0 else min k len)"

definition slice :: "'a list \<Rightarrow> int \<Rightarrow> int \<Rightarrow> 'a list" where
  "slice s a b =
     (let len = int (length s); from = relIndex len a; to = relIndex len b
      in take (to - from) (drop from s))"

definition sliceFrom :: "'a list \<Rightarrow> int \<Rightarrow> 'a list" where
  "sliceFrom s a = drop (relIndex (int (length s)) a) s"

text \<open>\<open>s[i]\<close>: \<open>undefined\<close> (here \<open>None\<close>) outside the string.\<close>

definition charAt :: "'a list \<Rightarrow> int \<Rightarrow> 'a option" where
  "charAt s i = (if 0 \<le> i \<and> i < int (length s) then Some (s ! nat i) else None)"

definition startsWith :: "jsstring \<Rightarrow> jsstring \<Rightarrow> bool" where
  "startsWith s p = (take (length p) s = p)"

text \<open>
  \<open>s.replace(/\S/gu, " ")\<close>. With the \<open>u\<close> flag the pattern is matched against code
  points: a surrogate pair is one character, it is not white space, and the whole match
  (two code units) is replaced by one space. A lone surrogate is a character of its own.
\<close>

fun replaceNonSpace :: "jsstring \<Rightarrow> jsstring" where
  "replaceNonSpace (h # l # r) =
     (if isHighSurrogate h \<and> isLowSurrogate l then 0x20 # replaceNonSpace r
      else (if isWhiteSpace h then h else 0x20) # replaceNonSpace (l # r))"
| "replaceNonSpace [c] = [if isWhiteSpace c then c else 0x20]"
| "replaceNonSpace [] = []"

text \<open>
  The reducer of the two \<open>reduce\<close> calls in \<open>convertRoot\<close>:
  \<open>text.slice(0, r0) + text.slice(r0, r1).replace(/\S/gu, " ") + text.slice(r1)\<close>.
\<close>

definition stripRange :: "jsstring \<Rightarrow> int \<times> int \<Rightarrow> jsstring" where
  "stripRange text r =
     slice text 0 (fst r) @ replaceNonSpace (slice text (fst r) (snd r)) @ sliceFrom text (snd r)"

section \<open>Regular expressions\<close>

text \<open>
  The patterns of the source are all of the form \<open>/^...$/\<close>, so \<open>test\<close> is a match of
  the whole string. They mention ASCII characters only, so matching code units and
  matching code points agree on them.
\<close>

datatype regex =
  Never
  | Eps
  | Chr code_unit
  | Range code_unit code_unit
  | Alt regex regex
  | Seq regex regex
  | Star regex

definition Opt :: "regex \<Rightarrow> regex" where
  "Opt r = Alt r Eps"

definition Plus :: "regex \<Rightarrow> regex" where
  "Plus r = Seq r (Star r)"

fun nullable :: "regex \<Rightarrow> bool" where
  "nullable Never = False"
| "nullable Eps = True"
| "nullable (Chr c) = False"
| "nullable (Range a b) = False"
| "nullable (Alt r s) = (nullable r \<or> nullable s)"
| "nullable (Seq r s) = (nullable r \<and> nullable s)"
| "nullable (Star r) = True"

fun deriv :: "code_unit \<Rightarrow> regex \<Rightarrow> regex" where
  "deriv c Never = Never"
| "deriv c Eps = Never"
| "deriv c (Chr d) = (if c = d then Eps else Never)"
| "deriv c (Range a b) = (if a \<le> c \<and> c \<le> b then Eps else Never)"
| "deriv c (Alt r s) = Alt (deriv c r) (deriv c s)"
| "deriv c (Seq r s) =
     (if nullable r then Alt (Seq (deriv c r) s) (deriv c s) else Seq (deriv c r) s)"
| "deriv c (Star r) = Seq (deriv c r) (Star r)"

fun test :: "regex \<Rightarrow> jsstring \<Rightarrow> bool" where
  "test r [] = nullable r"
| "test r (c # cs) = test (deriv c r) cs"

fun lit :: "jsstring \<Rightarrow> regex" where
  "lit [] = Eps"
| "lit (c # cs) = Seq (Chr c) (lit cs)"

text \<open>
  A literal under the \<open>i\<close> flag. The letters used (\<open>i n f a\<close>) have no other character
  that case-folds to them, so each matches its lower and its upper case only.
\<close>

definition chrI :: "code_unit \<Rightarrow> regex" where
  "chrI c =
     (if 0x61 \<le> c \<and> c \<le> 0x7A then Alt (Chr c) (Chr (c - 0x20))
      else if 0x41 \<le> c \<and> c \<le> 0x5A then Alt (Chr c) (Chr (c + 0x20))
      else Chr c)"

fun litI :: "jsstring \<Rightarrow> regex" where
  "litI [] = Eps"
| "litI (c # cs) = Seq (chrI c) (litI cs)"

abbreviation digit :: regex where
  "digit \<equiv> Range 0x30 0x39"

abbreviation sign :: regex where
  "sign \<equiv> Alt (Chr 0x2D) (Chr 0x2B)"

section \<open>JavaScript values\<close>

text \<open>
  A number is finite, an infinity or NaN; the converter only asks whether one is finite and
  whether it is falsy (\<open>0\<close>, \<open>-0\<close>, both \<open>Finite 0\<close> here, and \<open>NaN\<close>).
\<close>

datatype jsnumber = Finite rat | PosInfinity | NegInfinity | NaN

datatype jsvalue =
  JUndefined
  | JNull
  | JBoolean bool
  | JNumber jsnumber
  | JString jsstring
  | JArray "jsvalue list"
  | JObject "(jsstring \<times> jsvalue) list"

fun truthy :: "jsvalue \<Rightarrow> bool" where
  "truthy JUndefined = False"
| "truthy JNull = False"
| "truthy (JBoolean b) = b"
| "truthy (JNumber (Finite q)) = (q \<noteq> 0)"
| "truthy (JNumber NaN) = False"
| "truthy (JNumber _) = True"
| "truthy (JString s) = (s \<noteq> [])"
| "truthy (JArray _) = True"
| "truthy (JObject _) = True"

fun isFinite :: "jsnumber \<Rightarrow> bool" where
  "isFinite (Finite q) = True"
| "isFinite _ = False"

text \<open>
  The functions of the \<open>yaml\<close> package and of the JavaScript runtime that the converter
  calls. They are not part of this repository and are parameters of the model:
  \<open>yaml.parse(str)\<close>, \<open>yaml.parseDocument(str).toJSON()\<close> and \<open>parseInt(str, 10)\<close>.
\<close>

record yaml =
  parse :: "jsstring \<Rightarrow> jsvalue"
  parseDocument_toJSON :: "jsstring \<Rightarrow> jsvalue"
  parseInt10 :: "jsstring \<Rightarrow> jsnumber"

section \<open>Scalar resolution\<close>

definition isTrue :: "jsstring \<Rightarrow> bool" where
  "isTrue str = (str = js ''true'' \<or> str = js ''True'' \<or> str = js ''TRUE'')"

definition isFalse :: "jsstring \<Rightarrow> bool" where
  "isFalse str = (str = js ''false'' \<or> str = js ''False'' \<or> str = js ''FALSE'')"

definition isNull :: "jsstring \<Rightarrow> bool" where
  "isNull str = (str = js ''null'' \<or> str = js ''Null'' \<or> str = js ''NULL'' \<or> str = js ''~'')"

text \<open>The six patterns of \<open>needParse\<close>, in the order of the source.\<close>

definition re_oct :: regex where
  "re_oct = Seq (lit (js ''0o'')) (Plus (Range 0x30 0x37))"

definition re_int :: regex where
  "re_int = Seq (Opt sign) (Plus digit)"

definition re_hex :: regex where
  "re_hex =
     Seq (lit (js ''0x'')) (Plus (Alt digit (Alt (Range 0x61 0x66) (Range 0x41 0x46))))"

definition re_nan :: regex where
  "re_nan = Alt (Seq (Opt sign) (litI (js ''.inf''))) (litI (js ''.nan''))"

definition re_exp :: regex where
  "re_exp =
     Seq (Opt sign)
       (Seq (Alt (Seq (Chr 0x2E) (Plus digit))
                 (Seq (Plus digit) (Opt (Seq (Chr 0x2E) (Star digit)))))
         (Seq (Alt (Chr 0x65) (Chr 0x45)) (Seq (Opt sign) (Plus digit))))"

definition re_float :: regex where
  "re_float =
     Seq (Opt sign)
       (Alt (Seq (Chr 0x2E) (Plus digit)) (Seq (Plus digit) (Seq (Chr 0x2E) (Star digit))))"

definition needParse :: "jsstring \<Rightarrow> bool" where
  "needParse str =
     (test re_oct str \<or> test re_int str \<or> test re_hex str \<or> test re_nan str
      \<or> test re_exp str \<or> test re_float str)"

text \<open>The pattern \<open>/^(?:[1-9]\d*|0)$/u\<close> of \<open>getTaggedValue\<close>.\<close>

definition re_tag_int :: regex where
  "re_tag_int = Alt (Seq (Range 0x31 0x39) (Star digit)) (Chr 0x30)"

text \<open>
  \<open>tokenValue\<close> of \<open>convertPlain\<close>: the value of a plain scalar before any tag is looked
  at. \<open>yaml.parse(strValue) || strValue\<close> keeps the raw string when the parse is falsy.
\<close>

definition plainTokenValue :: "yaml \<Rightarrow> jsstring \<Rightarrow> jsvalue" where
  "plainTokenValue y strValue =
     (if isTrue strValue then JBoolean True
      else if isFalse strValue then JBoolean False
      else if isNull strValue then JNull
      else if needParse strValue then
        (if truthy (parse y strValue) then parse y strValue else JString strValue)
      else JString strValue)"

datatype token_type =
  Block | Marker | Directive | Boolean | Numeric | Null | Identifier | String
  | BlockLiteral | BlockFolded | Punctuator

text \<open>The token type that \<open>convertPlain\<close> chooses from \<open>tokenValue\<close>.\<close>

definition plainTokenType :: "jsvalue \<Rightarrow> token_type" where
  "plainTokenType tokenValue =
     (case tokenValue of
        JBoolean b \<Rightarrow> Boolean
      | JNumber n \<Rightarrow> (if isFinite n then Numeric else Identifier)
      | JNull \<Rightarrow> Null
      | _ \<Rightarrow> Identifier)"

text \<open>
  \<open>getTaggedValue(tag, text, str)\<close>, with the tag's \<open>value\<close> as first argument. A core
  tag whose text does not fit falls through to the last two lines, as does any other tag.
\<close>

definition getTaggedValue :: "yaml \<Rightarrow> jsstring \<Rightarrow> jsstring \<Rightarrow> jsstring \<Rightarrow> jsvalue" where
  "getTaggedValue y tagValue text str =
     (let delegate =
            parseDocument_toJSON y
              ((if startsWith tagValue (js ''!'') then tagValue
                else js ''!<'' @ tagValue @ js ''>'') @ js '' '' @ text)
      in if tagValue = js ''tag:yaml.org,2002:str'' then JString str
         else if tagValue = js ''tag:yaml.org,2002:int'' then
           (if test re_tag_int str then JNumber (parseInt10 y str) else delegate)
         else if tagValue = js ''tag:yaml.org,2002:bool'' then
           (if isTrue str then JBoolean True
            else if isFalse str then JBoolean False
            else delegate)
         else if tagValue = js ''tag:yaml.org,2002:null'' then
           (if isNull str \<or> str = [] then JNull else delegate)
         else delegate)"

section \<open>The upstream tree\<close>

text \<open>
  The part of the tree of the grammar engine that the converter reads. Every node has a
  \<open>position\<close> with a start and an end point; a point has a 1-based line, a 1-based
  column and an offset.
\<close>

record position =
  line :: int
  column :: int

record point = position +
  offset :: int

record unist_position =
  pos_start :: point
  pos_end :: point

datatype Anchor = AnchorNode (anchor_position: unist_position) (anchor_value: jsstring)

datatype Tag = TagNode (tag_position: unist_position) (tag_value: jsstring)

datatype Chomping = clip | keep | strip

text \<open>
  A content node carries its \<open>anchor\<close> and \<open>tag\<close> (\<open>null\<close> is \<open>None\<close>) as last two
  fields. \<open>OtherNode t\<close> stands for a node whose \<open>type\<close> is \<open>t\<close>, none of the ten that
  \<open>convertContentNode\<close> tests for. An item's \<open>children\<close> is a list: the source asks for
  its length and reads its first element. A mapping item has exactly a key and a value.
\<close>

datatype ContentNode =
  MappingNode unist_position "MappingItem list" "Anchor option" "Tag option"
  | FlowMappingNode unist_position "MappingItem list" "Anchor option" "Tag option"
  | SequenceNode unist_position "SequenceItem list" "Anchor option" "Tag option"
  | FlowSequenceNode unist_position "FlowSequenceChild list" "Anchor option" "Tag option"
  | PlainNode unist_position jsstring "Anchor option" "Tag option"
  | QuoteDoubleNode unist_position jsstring "Anchor option" "Tag option"
  | QuoteSingleNode unist_position jsstring "Anchor option" "Tag option"
  | BlockLiteralNode unist_position jsstring Chomping "int option" "Anchor option" "Tag option"
  | BlockFoldedNode unist_position jsstring Chomping "int option" "Anchor option" "Tag option"
  | AliasNode unist_position jsstring "Anchor option" "Tag option"
  | OtherNode jsstring
and MappingItem = MappingItemNode unist_position MappingKey MappingValue
and MappingKey = MappingKeyNode unist_position "ContentNode list"
and MappingValue = MappingValueNode unist_position "ContentNode list"
and SequenceItem = SequenceItemNode unist_position "ContentNode list"
and FlowSequenceChild = FlowSequenceItem SequenceItem | FlowMappingItem MappingItem

datatype Directive = DirectiveNode unist_position

datatype DocumentHead = DocumentHeadNode unist_position "Directive list"

datatype DocumentBody = DocumentBodyNode unist_position "ContentNode list"

datatype Document = DocumentNode unist_position DocumentHead DocumentBody

datatype CommentNode = CommentNode unist_position jsstring

datatype Root = RootNode unist_position "Document list" "CommentNode list"

section \<open>The output tree\<close>

record source_location =
  loc_start :: position
  loc_end :: position

record locations =
  range :: "int \<times> int"
  loc :: source_location

record token = locations +
  type :: token_type
  "value" :: jsstring

text \<open>
  Nodes of the output are JavaScript objects, and \<open>parent\<close> is a reference to one. An
  object is identified by \<open>nid\<close>, the number of objects created before it in the
  conversion; a reference is such a number. Properties that are the same in every object
  of a kind are left out: the \<open>type\<close> of a node and of a comment, the \<open>sourceType\<close>
  and the \<open>parent\<close> (\<open>null\<close>) of the program.
\<close>

type_synonym ref = nat

record yamlnode = locations +
  nid :: ref
  parent :: ref

datatype YAMLAnchor = YAMLAnchor (name: jsstring) (anchor_node: yamlnode)

datatype YAMLTag = YAMLTag (tag: jsstring) (tag_node: yamlnode)

datatype Style = block | flow

text \<open>
  What the five scalar styles store. A plain or quoted scalar has a \<open>value\<close> getter, a
  closure over \<open>tokenValue\<close> (plain), the source text of the node's range (quoted) and
  the \<open>value\<close> of the upstream node's tag; these are kept with the node.
\<close>

datatype ScalarStyle =
  plain (strValue: jsstring) (tokenValue: jsvalue) (nodeTag: "jsstring option")
  | double_quoted (strValue: jsstring) (source_text: jsstring) (nodeTag: "jsstring option")
  | single_quoted (strValue: jsstring) (source_text: jsstring) (nodeTag: "jsstring option")
  | literal Chomping "int option" jsstring
  | folded Chomping "int option" jsstring

datatype YAMLContent =
  YAMLMapping Style (pairs: "YAMLPair list") (anchor: "YAMLAnchor option")
    (tag_of: "YAMLTag option") (node: yamlnode)
  | YAMLSequence Style (entries: "YAMLContent list") (anchor: "YAMLAnchor option")
    (tag_of: "YAMLTag option") (node: yamlnode)
  | YAMLScalar (scalar: ScalarStyle) (anchor: "YAMLAnchor option")
    (tag_of: "YAMLTag option") (node: yamlnode)
  | YAMLAlias jsstring (anchor: "YAMLAnchor option")
    (tag_of: "YAMLTag option") (node: yamlnode)
and YAMLPair =
  YAMLPair (key: "YAMLContent option") (pair_value: "YAMLContent option")
    (pair_node: yamlnode)

datatype YAMLDirective = YAMLDirective jsstring yamlnode

text \<open>
  The \<open>anchors\<close> of a document is the object literal \<open>{}\<close>, an ordinary object with
  \<open>Object.prototype\<close> as prototype, used as a table from names to anchor nodes. The
  model keeps its own properties and its prototype, which the name \<open>__proto__\<close> changes.
\<close>

datatype Prototype = ObjectPrototype | NodePrototype YAMLAnchor

record anchorsObject =
  own :: "jsstring \<rightharpoonup> YAMLAnchor"
  prototype :: Prototype

definition emptyObject :: anchorsObject where
  "emptyObject = \<lparr>own = Map.empty, prototype = ObjectPrototype\<rparr>"

text \<open>
  \<open>obj[nm] = ast\<close>. For \<open>__proto__\<close> the assignment runs the setter that
  \<open>Object.prototype\<close> has for this name: the object \<open>ast\<close> becomes the prototype, and
  no own property is made. For any other name the own property is made or overwritten:
  the properties that can be inherited (of \<open>Object.prototype\<close>, or of an anchor node
  that is the prototype) are writable data properties.
\<close>

definition setProperty :: "anchorsObject \<Rightarrow> jsstring \<Rightarrow> YAMLAnchor \<Rightarrow> anchorsObject" where
  "setProperty obj nm ast =
     (if nm = js ''__proto__'' then obj\<lparr>prototype := NodePrototype ast\<rparr>
      else obj\<lparr>own := (own obj)(nm \<mapsto> ast)\<rparr>)"

text \<open>
  The names of the properties of \<open>Object.prototype\<close> (of the JavaScript runtime, not of
  this repository), and of the properties that \<open>convertAnchor\<close> gives an anchor node.
\<close>

definition objectPrototypeKeys :: "jsstring list" where
  "objectPrototypeKeys =
     [js ''constructor'', js ''__defineGetter__'', js ''__defineSetter__'',
      js ''hasOwnProperty'', js ''__lookupGetter__'', js ''__lookupSetter__'',
      js ''isPrototypeOf'', js ''propertyIsEnumerable'', js ''toString'', js ''valueOf'',
      js ''__proto__'', js ''toLocaleString'']"

definition anchorNodeKeys :: "jsstring list" where
  "anchorNodeKeys = [js ''type'', js ''name'', js ''parent'', js ''range'', js ''loc'']"

text \<open>
  \<open>obj[nm]\<close>: an anchor node (an own property, or the prototype itself at \<open>__proto__\<close>
  once an anchor node is the prototype), some other value found on the prototype chain, or
  \<open>undefined\<close>.
\<close>

datatype PropertyValue = AnchorValue YAMLAnchor | InheritedValue | UndefinedValue

definition getProperty :: "anchorsObject \<Rightarrow> jsstring \<Rightarrow> PropertyValue" where
  "getProperty obj nm =
     (case own obj nm of
        Some ast \<Rightarrow> AnchorValue ast
      | None \<Rightarrow>
          (case prototype obj of
             NodePrototype ast \<Rightarrow>
               (if nm = js ''__proto__'' then AnchorValue ast
                else if nm \<in> set anchorNodeKeys \<or> nm \<in> set objectPrototypeKeys
                     then InheritedValue
                else UndefinedValue)
           | ObjectPrototype \<Rightarrow>
               (if nm \<in> set objectPrototypeKeys then InheritedValue else UndefinedValue)))"

datatype YAMLDocument =
  YAMLDocument (directives: "YAMLDirective list") (content: "YAMLContent option")
    (anchors: anchorsObject) (document_node: yamlnode)

record comment = locations +
  comment_value :: jsstring

datatype YAMLProgram =
  YAMLProgram (body: "YAMLDocument list") (comments: "comment list")
    (program_tokens: "token list") (program_locations: locations)

text \<open>The \<open>value\<close> getter of a scalar (its result is cached by the source).\<close>

fun scalar_value :: "yaml \<Rightarrow> ScalarStyle \<Rightarrow> jsvalue" where
  "scalar_value y (plain str tv None) = tv"
| "scalar_value y (plain str tv (Some t)) = getTaggedValue y t str str"
| "scalar_value y (double_quoted str txt None) = JString str"
| "scalar_value y (double_quoted str txt (Some t)) = getTaggedValue y t txt str"
| "scalar_value y (single_quoted str txt None) = JString str"
| "scalar_value y (single_quoted str txt (Some t)) = getTaggedValue y t txt str"
| "scalar_value y (literal c i v) = JString v"
| "scalar_value y (folded c i v) = JString v"

section \<open>The state of a conversion\<close>

text \<open>
  The shared \<open>tokens\<close> array, the \<open>anchors\<close> object of each document (by the
  document's reference) and the number of objects created so far.
\<close>

record state =
  tokens :: "token list"
  doc_anchors :: "ref \<Rightarrow> anchorsObject"
  nextRef :: ref

datatype error = UnsupportedNode jsstring

definition mkNode :: "locations \<Rightarrow> ref \<Rightarrow> ref \<Rightarrow> yamlnode" where
  "mkNode l r p = \<lparr>range = range l, loc = loc l, nid = r, parent = p\<rparr>"

definition getConvertLocation :: "unist_position \<Rightarrow> locations" where
  "getConvertLocation p =
     \<lparr>range = (offset (pos_start p), offset (pos_end p)),
      loc = \<lparr>loc_start = \<lparr>line = line (pos_start p), column = column (pos_start p) - 1\<rparr>,
             loc_end = \<lparr>line = line (pos_end p), column = column (pos_end p) - 1\<rparr>\<rparr>\<rparr>"

definition addToken :: "token_type \<Rightarrow> locations \<Rightarrow> jsstring \<Rightarrow> state \<Rightarrow> state" where
  "addToken ty l code s =
     s\<lparr>tokens := tokens s @
        [\<lparr>range = range l, loc = loc l, type = ty,
          value = slice code (fst (range l)) (snd (range l))\<rparr>]\<rparr>"

definition alloc :: "state \<Rightarrow> state" where
  "alloc s = s\<lparr>nextRef := Suc (nextRef s)\<rparr>"

section \<open>Anchors, tags and aliases\<close>

text \<open>
  The two locations that \<open>convertAlias\<close>, \<open>convertAnchor\<close> and \<open>convertTag\<close> build when
  the text starts with the sigil: \<open>punctuatorLoc\<close> for the first \<open>n\<close> characters and
  \<open>tokenLoc\<close> for the rest.
\<close>

definition punctuatorLoc :: "locations \<Rightarrow> int \<Rightarrow> locations" where
  "punctuatorLoc l n =
     \<lparr>range = (fst (range l), fst (range l) + n),
      loc = \<lparr>loc_start = loc_start (loc l),
             loc_end = \<lparr>line = line (loc_start (loc l)),
                        column = column (loc_start (loc l)) + n\<rparr>\<rparr>\<rparr>"

definition tokenLoc :: "locations \<Rightarrow> locations \<Rightarrow> locations" where
  "tokenLoc pl l =
     \<lparr>range = (snd (range pl), snd (range l)),
      loc = \<lparr>loc_start = loc_end (loc pl), loc_end = loc_end (loc l)\<rparr>\<rparr>"

definition convertAnchor ::
  "Anchor \<Rightarrow> jsstring \<Rightarrow> ref \<Rightarrow> ref \<Rightarrow> state \<Rightarrow> YAMLAnchor \<times> state" where
  "convertAnchor n code par doc s =
     (let l = getConvertLocation (anchor_position n);
          v = anchor_value n;
          ast = YAMLAnchor v (mkNode l (nextRef s) par);
          s1 = alloc s;
          s2 = s1\<lparr>doc_anchors := (doc_anchors s1)(doc := setProperty (doc_anchors s1 doc) v ast)\<rparr>;
          txt = slice code (fst (range l)) (snd (range l))
      in if startsWith txt (js ''&'') then
           (ast, addToken Identifier (tokenLoc (punctuatorLoc l 1) l) code
                   (addToken Punctuator (punctuatorLoc l 1) code s2))
         else (ast, addToken Identifier l code s2))"

definition convertTag :: "Tag \<Rightarrow> jsstring \<Rightarrow> ref \<Rightarrow> state \<Rightarrow> YAMLTag \<times> state" where
  "convertTag n code par s =
     (let l = getConvertLocation (tag_position n);
          v = tag_value n;
          ast = YAMLTag v (mkNode l (nextRef s) par);
          s1 = alloc s;
          txt = slice code (fst (range l)) (snd (range l))
      in if startsWith txt (js ''!'') then
           (let off = (if startsWith txt (js ''!!'') then 2 else 1)
            in (ast, addToken Identifier (tokenLoc (punctuatorLoc l off) l) code
                       (addToken Punctuator (punctuatorLoc l off) code s1)))
         else (ast, addToken Identifier l code s1))"

text \<open>The object literal evaluates its \<open>anchor\<close> property first, then its \<open>tag\<close>.\<close>

definition convertAnchorAndTag ::
  "Anchor option \<Rightarrow> Tag option \<Rightarrow> jsstring \<Rightarrow> ref \<Rightarrow> ref \<Rightarrow> state
   \<Rightarrow> YAMLAnchor option \<times> YAMLTag option \<times> state" where
  "convertAnchorAndTag a t code par doc s =
     (let (an, s1) = (case a of None \<Rightarrow> (None, s)
                      | Some n \<Rightarrow> (Some (fst (convertAnchor n code par doc s)),
                                   snd (convertAnchor n code par doc s)));
          (tg, s2) = (case t of None \<Rightarrow> (None, s1)
                      | Some n \<Rightarrow> (Some (fst (convertTag n code par s1)),
                                   snd (convertTag n code par s1)))
      in (an, tg, s2))"

definition convertAlias ::
  "unist_position \<Rightarrow> jsstring \<Rightarrow> Anchor option \<Rightarrow> Tag option \<Rightarrow> jsstring \<Rightarrow> ref \<Rightarrow> ref
   \<Rightarrow> state \<Rightarrow> YAMLContent \<times> state" where
  "convertAlias p v a t code par doc s =
     (let l = getConvertLocation p;
          r = nextRef s;
          (an, tg, s1) = convertAnchorAndTag a t code r doc (alloc s);
          ast = YAMLAlias v an tg (mkNode l r par);
          txt = slice code (fst (range l)) (snd (range l))
      in if startsWith txt (js ''*'') then
           (ast, addToken Identifier (tokenLoc (punctuatorLoc l 1) l) code
                   (addToken Punctuator (punctuatorLoc l 1) code s1))
         else (ast, addToken Identifier l code s1))"

section \<open>Scalars\<close>

definition convertPlain ::
  "yaml \<Rightarrow> unist_position \<Rightarrow> jsstring \<Rightarrow> Anchor option \<Rightarrow> Tag option \<Rightarrow> jsstring \<Rightarrow> ref
   \<Rightarrow> ref \<Rightarrow> state \<Rightarrow> YAMLContent \<times> state" where
  "convertPlain y p v a t code par doc s =
     (let l = getConvertLocation p;
          tv = plainTokenValue y v;
          r = nextRef s;
          (an, tg, s1) = convertAnchorAndTag a t code r doc (alloc s);
          ast = YAMLScalar (plain v tv (map_option tag_value t)) an tg (mkNode l r par)
      in (ast, addToken (plainTokenType tv) l code s1))"

definition convertQuoteDouble ::
  "unist_position \<Rightarrow> jsstring \<Rightarrow> Anchor option \<Rightarrow> Tag option \<Rightarrow> jsstring \<Rightarrow> ref \<Rightarrow> ref
   \<Rightarrow> state \<Rightarrow> YAMLContent \<times> state" where
  "convertQuoteDouble p v a t code par doc s =
     (let l = getConvertLocation p;
          r = nextRef s;
          (an, tg, s1) = convertAnchorAndTag a t code r doc (alloc s);
          ast = YAMLScalar
                  (double_quoted v (slice code (fst (range l)) (snd (range l)))
                     (map_option tag_value t))
                  an tg (mkNode l r par)
      in (ast, addToken String l code s1))"

definition convertQuoteSingle ::
  "unist_position \<Rightarrow> jsstring \<Rightarrow> Anchor option \<Rightarrow> Tag option \<Rightarrow> jsstring \<Rightarrow> ref \<Rightarrow> ref
   \<Rightarrow> state \<Rightarrow> YAMLContent \<times> state" where
  "convertQuoteSingle p v a t code par doc s =
     (let l = getConvertLocation p;
          r = nextRef s;
          (an, tg, s1) = convertAnchorAndTag a t code r doc (alloc s);
          ast = YAMLScalar
                  (single_quoted v (slice code (fst (range l)) (snd (range l)))
                     (map_option tag_value t))
                  an tg (mkNode l r par)
      in (ast, addToken String l code s1))"

text \<open>
  The two \<open>while\<close> loops of \<open>convertBlockLiteral\<close> and \<open>convertBlockFolded\<close>, run on the
  text from \<open>index\<close> on. The first stops at the first white space character (so its
  test for a newline never holds); the second skips white space, counting lines.
  Both return \<open>(index, line, column)\<close>.
\<close>

fun headerLoop :: "jsstring \<Rightarrow> int \<Rightarrow> int \<Rightarrow> int \<Rightarrow> int \<times> int \<times> int" where
  "headerLoop [] i li co = (i, li, co)"
| "headerLoop (c # cs) i li co =
     (if isWhiteSpace c then (i, li, co)
      else if c = 0x0A then (i, li + 1, 0)
      else headerLoop cs (i + 1) li (co + 1))"

fun bodyLoop :: "jsstring \<Rightarrow> int \<Rightarrow> int \<Rightarrow> int \<Rightarrow> int \<times> int \<times> int" where
  "bodyLoop [] i li co = (i, li, co)"
| "bodyLoop (c # cs) i li co =
     (if \<not> isWhiteSpace c then (i, li, co)
      else if c = 0x0A then bodyLoop cs (i + 1) (li + 1) 0
      else bodyLoop cs (i + 1) li (co + 1))"

text \<open>
  The tokens of a block scalar, the same code in both functions but for the indicator
  (\<open>|\<close> or \<open>>\<close>) and the type of the second token.
\<close>

definition blockTokens ::
  "jsstring \<Rightarrow> token_type \<Rightarrow> locations \<Rightarrow> jsstring \<Rightarrow> state \<Rightarrow> state" where
  "blockTokens ind ty l code s =
     (let txt = slice code (fst (range l)) (snd (range l))
      in if startsWith txt ind then
           (let off = fst (range l);
                (i1, li1, co1) =
                  headerLoop (drop 1 txt) 1 (line (loc_start (loc l)))
                    (column (loc_start (loc l)) + 1);
                pl = \<lparr>range = (off, off + i1),
                      loc = \<lparr>loc_start = loc_start (loc l),
                             loc_end = \<lparr>line = li1, column = co1\<rparr>\<rparr>\<rparr>;
                (i2, li2, co2) = bodyLoop (drop (nat i1) txt) i1 li1 co1;
                tl = \<lparr>range = (off + i2, snd (range l)),
                      loc = \<lparr>loc_start = \<lparr>line = li2, column = co2\<rparr>,
                             loc_end = loc_end (loc l)\<rparr>\<rparr>
            in addToken ty tl code (addToken Punctuator pl code s))
         else addToken ty l code s)"

definition convertBlockLiteral ::
  "unist_position \<Rightarrow> jsstring \<Rightarrow> Chomping \<Rightarrow> int option \<Rightarrow> Anchor option \<Rightarrow> Tag option
   \<Rightarrow> jsstring \<Rightarrow> ref \<Rightarrow> ref \<Rightarrow> state \<Rightarrow> YAMLContent \<times> state" where
  "convertBlockLiteral p v ch ind a t code par doc s =
     (let l = getConvertLocation p;
          r = nextRef s;
          (an, tg, s1) = convertAnchorAndTag a t code r doc (alloc s);
          ast = YAMLScalar (literal ch ind v) an tg (mkNode l r par)
      in (ast, blockTokens (js ''|'') BlockLiteral l code s1))"

definition convertBlockFolded ::
  "unist_position \<Rightarrow> jsstring \<Rightarrow> Chomping \<Rightarrow> int option \<Rightarrow> Anchor option \<Rightarrow> Tag option
   \<Rightarrow> jsstring \<Rightarrow> ref \<Rightarrow> ref \<Rightarrow> state \<Rightarrow> YAMLContent \<times> state" where
  "convertBlockFolded p v ch ind a t code par doc s =
     (let l = getConvertLocation p;
          r = nextRef s;
          (an, tg, s1) = convertAnchorAndTag a t code r doc (alloc s);
          ast = YAMLScalar (folded ch ind v) an tg (mkNode l r par)
      in (ast, blockTokens (js ''>'') BlockFolded l code s1))"

section \<open>The tree walker\<close>

text \<open>
  A conversion that may throw returns \<open>Inl\<close> of the error, or \<open>Inr\<close> of its result and
  the new state. \<open>forEach\<close> is the \<open>for (const n of node.children)\<close> loop: it runs the
  conversions of the children in order, from state to state, stops at the first that
  throws and returns what the conversions returned.
\<close>

type_synonym 'a conversion = "state \<Rightarrow> error + 'a \<times> state"

fun forEach :: "'a conversion list \<Rightarrow> 'a list conversion" where
  "forEach [] s = Inr ([], s)"
| "forEach (m # ms) s =
     (case m s of
        Inl e \<Rightarrow> Inl e
      | Inr (x, s1) \<Rightarrow>
          (case forEach ms s1 of
             Inl e \<Rightarrow> Inl e
           | Inr (xs, s2) \<Rightarrow> Inr (x # xs, s2)))"

text \<open>
  The four collections. \<open>loop\<close> is the loop over the children, given the reference of the
  node \<open>ast\<close> under construction, which is created before the loop runs; the anchor and
  the tag are converted after it. In \<open>convertSequence\<close> and \<open>convertFlowSequence\<close> every
  child contributes a list of entries (\<open>ast.entries.push(...)\<close>).
\<close>

definition convertMapping ::
  "(ref \<Rightarrow> YAMLPair list conversion) \<Rightarrow> unist_position \<Rightarrow> Anchor option \<Rightarrow> Tag option
   \<Rightarrow> jsstring \<Rightarrow> ref \<Rightarrow> ref \<Rightarrow> YAMLContent conversion" where
  "convertMapping loop p a t code par doc s =
     (case loop (nextRef s) (alloc s) of
        Inl e \<Rightarrow> Inl e
      | Inr (ps, s1) \<Rightarrow>
          (case convertAnchorAndTag a t code (nextRef s) doc s1 of
             (an, tg, s2) \<Rightarrow>
               Inr (YAMLMapping block ps an tg
                      (mkNode (getConvertLocation p) (nextRef s) par), s2)))"

definition convertFlowMapping ::
  "(ref \<Rightarrow> YAMLPair list conversion) \<Rightarrow> unist_position \<Rightarrow> Anchor option \<Rightarrow> Tag option
   \<Rightarrow> jsstring \<Rightarrow> ref \<Rightarrow> ref \<Rightarrow> YAMLContent conversion" where
  "convertFlowMapping loop p a t code par doc s =
     (case loop (nextRef s) (alloc s) of
        Inl e \<Rightarrow> Inl e
      | Inr (ps, s1) \<Rightarrow>
          (case convertAnchorAndTag a t code (nextRef s) doc s1 of
             (an, tg, s2) \<Rightarrow>
               Inr (YAMLMapping flow ps an tg
                      (mkNode (getConvertLocation p) (nextRef s) par), s2)))"

definition convertSequence ::
  "(ref \<Rightarrow> YAMLContent list list conversion) \<Rightarrow> unist_position \<Rightarrow> Anchor option
   \<Rightarrow> Tag option \<Rightarrow> jsstring \<Rightarrow> ref \<Rightarrow> ref \<Rightarrow> YAMLContent conversion" where
  "convertSequence loop p a t code par doc s =
     (case loop (nextRef s) (alloc s) of
        Inl e \<Rightarrow> Inl e
      | Inr (es, s1) \<Rightarrow>
          (case convertAnchorAndTag a t code (nextRef s) doc s1 of
             (an, tg, s2) \<Rightarrow>
               Inr (YAMLSequence block (concat es) an tg
                      (mkNode (getConvertLocation p) (nextRef s) par), s2)))"

definition convertFlowSequence ::
  "(ref \<Rightarrow> YAMLContent list list conversion) \<Rightarrow> unist_position \<Rightarrow> Anchor option
   \<Rightarrow> Tag option \<Rightarrow> jsstring \<Rightarrow> ref \<Rightarrow> ref \<Rightarrow> YAMLContent conversion" where
  "convertFlowSequence loop p a t code par doc s =
     (case loop (nextRef s) (alloc s) of
        Inl e \<Rightarrow> Inl e
      | Inr (es, s1) \<Rightarrow>
          (case convertAnchorAndTag a t code (nextRef s) doc s1 of
             (an, tg, s2) \<Rightarrow>
               Inr (YAMLSequence flow (concat es) an tg
                      (mkNode (getConvertLocation p) (nextRef s) par), s2)))"

fun mappingItem_position :: "MappingItem \<Rightarrow> unist_position" where
  "mappingItem_position (MappingItemNode p k v) = p"

text \<open>
  The recursion over the upstream tree. \<open>convertFlowSequenceChild\<close> is the body of the loop
  of \<open>convertFlowSequence\<close>; it takes the sequence \<open>ast\<close> and the \<open>parent\<close> of the
  sequence. A key, a value and a sequence item convert their first child, if any.
\<close>

primrec convertContentNode ::
  "ContentNode \<Rightarrow> yaml \<Rightarrow> jsstring \<Rightarrow> ref \<Rightarrow> ref \<Rightarrow> YAMLContent conversion"
and convertMappingItem ::
  "MappingItem \<Rightarrow> yaml \<Rightarrow> jsstring \<Rightarrow> ref \<Rightarrow> ref \<Rightarrow> YAMLPair conversion"
and convertMappingKey ::
  "MappingKey \<Rightarrow> yaml \<Rightarrow> jsstring \<Rightarrow> ref \<Rightarrow> ref \<Rightarrow> YAMLContent option conversion"
and convertMappingValue ::
  "MappingValue \<Rightarrow> yaml \<Rightarrow> jsstring \<Rightarrow> ref \<Rightarrow> ref \<Rightarrow> YAMLContent option conversion"
and convertSequenceItem ::
  "SequenceItem \<Rightarrow> yaml \<Rightarrow> jsstring \<Rightarrow> ref \<Rightarrow> ref \<Rightarrow> YAMLContent list conversion"
and convertFlowSequenceChild ::
  "FlowSequenceChild \<Rightarrow> yaml \<Rightarrow> jsstring \<Rightarrow> ref \<Rightarrow> ref \<Rightarrow> ref
   \<Rightarrow> YAMLContent list conversion"
where
  "convertContentNode (MappingNode p ch a t) y code par doc s =
     convertMapping (\<lambda>ast. forEach (map (\<lambda>n. convertMappingItem n y code ast doc) ch))
       p a t code par doc s"
| "convertContentNode (FlowMappingNode p ch a t) y code par doc s =
     convertFlowMapping (\<lambda>ast. forEach (map (\<lambda>n. convertMappingItem n y code ast doc) ch))
       p a t code par doc s"
| "convertContentNode (SequenceNode p ch a t) y code par doc s =
     convertSequence (\<lambda>ast. forEach (map (\<lambda>n. convertSequenceItem n y code ast doc) ch))
       p a t code par doc s"
| "convertContentNode (FlowSequenceNode p ch a t) y code par doc s =
     convertFlowSequence
       (\<lambda>ast. forEach (map (\<lambda>n. convertFlowSequenceChild n y code ast par doc) ch))
       p a t code par doc s"
| "convertContentNode (PlainNode p v a t) y code par doc s =
     Inr (convertPlain y p v a t code par doc s)"
| "convertContentNode (QuoteDoubleNode p v a t) y code par doc s =
     Inr (convertQuoteDouble p v a t code par doc s)"
| "convertContentNode (QuoteSingleNode p v a t) y code par doc s =
     Inr (convertQuoteSingle p v a t code par doc s)"
| "convertContentNode (BlockLiteralNode p v c i a t) y code par doc s =
     Inr (convertBlockLiteral p v c i a t code par doc s)"
| "convertContentNode (BlockFoldedNode p v c i a t) y code par doc s =
     Inr (convertBlockFolded p v c i a t code par doc s)"
| "convertContentNode (AliasNode p v a t) y code par doc s =
     Inr (convertAlias p v a t code par doc s)"
| "convertContentNode (OtherNode ty) y code par doc s = Inl (UnsupportedNode ty)"
| "convertMappingItem (MappingItemNode p k v) y code par doc s =
     (case convertMappingKey k y code (nextRef s) doc (alloc s) of
        Inl e \<Rightarrow> Inl e
      | Inr (ky, s1) \<Rightarrow>
          (case convertMappingValue v y code (nextRef s) doc s1 of
             Inl e \<Rightarrow> Inl e
           | Inr (vl, s2) \<Rightarrow>
               Inr (YAMLPair ky vl (mkNode (getConvertLocation p) (nextRef s) par), s2)))"
| "convertMappingKey (MappingKeyNode p ch) y code par doc s =
     (case map (\<lambda>c. convertContentNode c y code par doc) ch of
        [] \<Rightarrow> Inr (None, s)
      | first # _ \<Rightarrow>
          (case first s of Inl e \<Rightarrow> Inl e | Inr (r, s1) \<Rightarrow> Inr (Some r, s1)))"
| "convertMappingValue (MappingValueNode p ch) y code par doc s =
     (case map (\<lambda>c. convertContentNode c y code par doc) ch of
        [] \<Rightarrow> Inr (None, s)
      | first # _ \<Rightarrow>
          (case first s of Inl e \<Rightarrow> Inl e | Inr (r, s1) \<Rightarrow> Inr (Some r, s1)))"
| "convertSequenceItem (SequenceItemNode p ch) y code par doc s =
     (case map (\<lambda>c. convertContentNode c y code par doc) ch of
        [] \<Rightarrow> Inr ([], s)
      | first # _ \<Rightarrow>
          (case first s of Inl e \<Rightarrow> Inl e | Inr (r, s1) \<Rightarrow> Inr ([r], s1)))"
| "convertFlowSequenceChild (FlowSequenceItem n) y code ast par doc s =
     convertSequenceItem n y code ast doc s"
| "convertFlowSequenceChild (FlowMappingItem n) y code ast par doc s =
     (case convertMappingItem n y code (nextRef s) doc (alloc s) of
        Inl e \<Rightarrow> Inl e
      | Inr (pr, s1) \<Rightarrow>
          Inr ([YAMLMapping block [pr] None None
                  (mkNode (getConvertLocation (mappingItem_position n)) (nextRef s) par)],
               s1))"

section \<open>Documents and the root\<close>

definition convertDirective ::
  "Directive \<Rightarrow> jsstring \<Rightarrow> ref \<Rightarrow> state \<Rightarrow> YAMLDirective \<times> state" where
  "convertDirective n code par s =
     (case n of DirectiveNode p \<Rightarrow>
        (let l = getConvertLocation p
         in (YAMLDirective (slice code (fst (range l)) (snd (range l)))
               (mkNode l (nextRef s) par),
             addToken Directive l code (alloc s))))"

fun convertDirectives ::
  "Directive list \<Rightarrow> jsstring \<Rightarrow> ref \<Rightarrow> state \<Rightarrow> YAMLDirective list \<times> state" where
  "convertDirectives [] code par s = ([], s)"
| "convertDirectives (n # ns) code par s =
     (let (d, s1) = convertDirective n code par s;
          (ds, s2) = convertDirectives ns code par s1
      in (d # ds, s2))"

text \<open>
  The location of a marker token: the last three characters of the range, on the line
  where the range ends.
\<close>

definition markerLoc :: "locations \<Rightarrow> locations" where
  "markerLoc l =
     \<lparr>range = (snd (range l) - 3, snd (range l)),
      loc = \<lparr>loc_start = \<lparr>line = line (loc_end (loc l)),
                           column = column (loc_end (loc l)) - 3\<rparr>,
             loc_end = loc_end (loc l)\<rparr>\<rparr>"

definition convertDocumentHead ::
  "DocumentHead \<Rightarrow> jsstring \<Rightarrow> ref \<Rightarrow> state \<Rightarrow> YAMLDirective list \<times> state" where
  "convertDocumentHead n code par s =
     (case n of DocumentHeadNode p ch \<Rightarrow>
        (let (ds, s1) = convertDirectives ch code par s;
             l = getConvertLocation p
         in if charAt code (snd (range l) - 1) = Some 0x2D
            then (ds, addToken Marker (markerLoc l) code s1)
            else (ds, s1)))"

definition convertDocumentBody ::
  "DocumentBody \<Rightarrow> yaml \<Rightarrow> jsstring \<Rightarrow> ref \<Rightarrow> YAMLContent option conversion" where
  "convertDocumentBody n y code par s =
     (case n of DocumentBodyNode p ch \<Rightarrow>
        (case ch of
           [] \<Rightarrow> Inr (None, s)
         | contentNode # _ \<Rightarrow>
             (case convertContentNode contentNode y code par par s of
                Inl e \<Rightarrow> Inl e
              | Inr (r, s1) \<Rightarrow> Inr (Some r, s1))))"

text \<open>
  The document is created with an empty \<open>anchors\<close> object; the node returned holds what
  the object contains when the document is finished.
\<close>

definition convertDocument ::
  "Document \<Rightarrow> yaml \<Rightarrow> jsstring \<Rightarrow> ref \<Rightarrow> YAMLDocument conversion" where
  "convertDocument n y code par s =
     (case n of DocumentNode p h b \<Rightarrow>
        (let l = getConvertLocation p;
             ast = nextRef s;
             s0 = (alloc s)\<lparr>doc_anchors := (doc_anchors s)(ast := emptyObject)\<rparr>;
             (ds, s1) = convertDocumentHead h code ast s0
         in case convertDocumentBody b y code ast s1 of
              Inl e \<Rightarrow> Inl e
            | Inr (c, s2) \<Rightarrow>
                (let s3 = (if charAt code (snd (range l) - 1) = Some 0x2E
                           then addToken Marker (markerLoc l) code s2 else s2)
                 in Inr (YAMLDocument ds c (doc_anchors s3 ast) (mkNode l ast par), s3))))"

definition isPunctuator :: "code_unit \<Rightarrow> bool" where
  "isPunctuator c =
     (c = 0x3A \<or> c = 0x2D \<or> c = 0x2C \<or> c = 0x7B \<or> c = 0x7D \<or> c = 0x5B \<or> c = 0x5D
      \<or> c = 0x3F)"

text \<open>
  The scan of \<open>convertRoot\<close> over \<open>stripTokensCode\<close>, on the text from \<open>index\<close> on, with
  the line and the column of \<open>index\<close>.
\<close>

fun punctuatorScan :: "jsstring \<Rightarrow> jsstring \<Rightarrow> int \<Rightarrow> int \<Rightarrow> int \<Rightarrow> state \<Rightarrow> state" where
  "punctuatorScan [] code i li co s = s"
| "punctuatorScan (c # cs) code i li co s =
     (if c = 0x0A then punctuatorScan cs code (i + 1) (li + 1) 0 s
      else punctuatorScan cs code (i + 1) li (co + 1)
             (if \<not> isWhiteSpace c \<and> isPunctuator c then
                addToken Punctuator
                  \<lparr>range = (i, i + 1),
                   loc = \<lparr>loc_start = \<lparr>line = li, column = co\<rparr>,
                          loc_end = \<lparr>line = li, column = co + 1\<rparr>\<rparr>\<rparr>
                  code s
              else s))"

definition convertComment :: "CommentNode \<Rightarrow> comment" where
  "convertComment n =
     (case n of CommentNode p v \<Rightarrow>
        \<lparr>range = range (getConvertLocation p), loc = loc (getConvertLocation p),
         comment_value = v\<rparr>)"

definition initialState :: state where
  "initialState = \<lparr>tokens = [], doc_anchors = (\<lambda>_. emptyObject), nextRef = 1\<rparr>"

text \<open>
  \<open>convertRoot\<close>. The program is the first object (reference \<open>0\<close>). The documents are
  converted on \<open>stripCommentCode\<close>, the scan runs on \<open>stripTokensCode\<close>, and the tokens
  are sorted by their start offset (a stable sort).
\<close>

definition stripCommentCode :: "CommentNode list \<Rightarrow> jsstring \<Rightarrow> jsstring" where
  "stripCommentCode cs code = foldl stripRange code (map (range \<circ> convertComment) cs)"

definition stripTokensCode :: "token list \<Rightarrow> jsstring \<Rightarrow> jsstring" where
  "stripTokensCode ts code = foldl stripRange code (map range ts)"

definition convertRoot :: "Root \<Rightarrow> yaml \<Rightarrow> jsstring \<Rightarrow> error + YAMLProgram" where
  "convertRoot n y code =
     (case n of RootNode p ch cs \<Rightarrow>
        (case forEach (map (\<lambda>d. convertDocument d y (stripCommentCode cs code) 0) ch)
                initialState of
           Inl e \<Rightarrow> Inl e
         | Inr (docs, s1) \<Rightarrow>
             (let stripped = stripTokensCode (tokens s1) (stripCommentCode cs code);
                  s2 = punctuatorScan stripped stripped 0 1 0 s1
              in Inr (YAMLProgram docs (map convertComment cs)
                        (sort_key (\<lambda>t. fst (range t)) (tokens s2))
                        (getConvertLocation p)))))"

section \<open>Notions used in the statements\<close>

subsection \<open>The language of a regular expression\<close>

text \<open>
  The strings that a regular expression matches, by the usual semantics: \<open>conc\<close> is
  concatenation, \<open>star\<close> iteration.
\<close>

definition conc :: "jsstring set \<Rightarrow> jsstring set \<Rightarrow> jsstring set" where
  "conc A B = {u @ v |u v. u \<in> A \<and> v \<in> B}"

inductive_set star :: "jsstring set \<Rightarrow> jsstring set" for A :: "jsstring set" where
  star_empty: "[] \<in> star A"
| star_more: "u \<in> A \<Longrightarrow> v \<in> star A \<Longrightarrow> u @ v \<in> star A"

fun lang :: "regex \<Rightarrow> jsstring set" where
  "lang Never = {}"
| "lang Eps = {[]}"
| "lang (Chr c) = {[c]}"
| "lang (Range a b) = {[c] |c. a \<le> c \<and> c \<le> b}"
| "lang (Alt r s) = lang r \<union> lang s"
| "lang (Seq r s) = conc (lang r) (lang s)"
| "lang (Star r) = star (lang r)"

subsection \<open>The anchor registry\<close>

text \<open>
  The anchors of the upstream tree in the order in which the walk converts them: in a
  collection those of the children, in order, before its own; in a pair those of the key
  before those of the value; of the children of a key, a value, a sequence item and a
  document body only the first is walked.
\<close>

definition optionList :: "'a option \<Rightarrow> 'a list" where
  "optionList x = (case x of None \<Rightarrow> [] | Some a \<Rightarrow> [a])"

primrec walkedAnchors :: "ContentNode \<Rightarrow> Anchor list"
and walkedItemAnchors :: "MappingItem \<Rightarrow> Anchor list"
and walkedKeyAnchors :: "MappingKey \<Rightarrow> Anchor list"
and walkedValueAnchors :: "MappingValue \<Rightarrow> Anchor list"
and walkedSequenceItemAnchors :: "SequenceItem \<Rightarrow> Anchor list"
and walkedFlowSequenceChildAnchors :: "FlowSequenceChild \<Rightarrow> Anchor list"
where
  "walkedAnchors (MappingNode p ch a t) = concat (map walkedItemAnchors ch) @ optionList a"
| "walkedAnchors (FlowMappingNode p ch a t) = concat (map walkedItemAnchors ch) @ optionList a"
| "walkedAnchors (SequenceNode p ch a t) =
     concat (map walkedSequenceItemAnchors ch) @ optionList a"
| "walkedAnchors (FlowSequenceNode p ch a t) =
     concat (map walkedFlowSequenceChildAnchors ch) @ optionList a"
| "walkedAnchors (PlainNode p v a t) = optionList a"
| "walkedAnchors (QuoteDoubleNode p v a t) = optionList a"
| "walkedAnchors (QuoteSingleNode p v a t) = optionList a"
| "walkedAnchors (BlockLiteralNode p v c i a t) = optionList a"
| "walkedAnchors (BlockFoldedNode p v c i a t) = optionList a"
| "walkedAnchors (AliasNode p v a t) = optionList a"
| "walkedAnchors (OtherNode ty) = []"
| "walkedItemAnchors (MappingItemNode p k v) = walkedKeyAnchors k @ walkedValueAnchors v"
| "walkedKeyAnchors (MappingKeyNode p ch) = concat (take 1 (map walkedAnchors ch))"
| "walkedValueAnchors (MappingValueNode p ch) = concat (take 1 (map walkedAnchors ch))"
| "walkedSequenceItemAnchors (SequenceItemNode p ch) = concat (take 1 (map walkedAnchors ch))"
| "walkedFlowSequenceChildAnchors (FlowSequenceItem n) = walkedSequenceItemAnchors n"
| "walkedFlowSequenceChildAnchors (FlowMappingItem n) = walkedItemAnchors n"

definition walkedDocumentAnchors :: "Document \<Rightarrow> Anchor list" where
  "walkedDocumentAnchors d =
     (case d of DocumentNode p h (DocumentBodyNode q ch) \<Rightarrow>
        concat (take 1 (map walkedAnchors ch)))"

text \<open>
  The anchor nodes of the output tree, in the same order: those of the pairs or entries of
  a collection before its own \<open>anchor\<close>.
\<close>

primrec convertedAnchors :: "YAMLContent \<Rightarrow> YAMLAnchor list"
and convertedPairAnchors :: "YAMLPair \<Rightarrow> YAMLAnchor list"
where
  "convertedAnchors (YAMLMapping st ps an tg nd) =
     concat (map convertedPairAnchors ps) @ optionList an"
| "convertedAnchors (YAMLSequence st es an tg nd) =
     concat (map convertedAnchors es) @ optionList an"
| "convertedAnchors (YAMLScalar sc an tg nd) = optionList an"
| "convertedAnchors (YAMLAlias v an tg nd) = optionList an"
| "convertedPairAnchors (YAMLPair k v nd) =
     concat (optionList (map_option convertedAnchors k))
     @ concat (optionList (map_option convertedAnchors v))"

definition convertedDocumentAnchors :: "YAMLDocument \<Rightarrow> YAMLAnchor list" where
  "convertedDocumentAnchors d = concat (optionList (map_option convertedAnchors (content d)))"

text \<open>
  An anchor node and an upstream anchor are compared by name and location.
  \<open>lastNamed nm evs\<close> is the last anchor of \<open>evs\<close> with the name \<open>nm\<close>.
\<close>

definition locationsOf :: "yamlnode \<Rightarrow> locations" where
  "locationsOf nd = \<lparr>range = range nd, loc = loc nd\<rparr>"

definition anchorKey :: "YAMLAnchor \<Rightarrow> jsstring \<times> locations" where
  "anchorKey a = (name a, locationsOf (anchor_node a))"

definition upstreamKey :: "Anchor \<Rightarrow> jsstring \<times> locations" where
  "upstreamKey n = (anchor_value n, getConvertLocation (anchor_position n))"

definition lastNamed :: "jsstring \<Rightarrow> YAMLAnchor list \<Rightarrow> YAMLAnchor option" where
  "lastNamed nm evs =
     (case filter (\<lambda>a. name a = nm) evs of [] \<Rightarrow> None | a # as \<Rightarrow> Some (last (a # as)))"

text \<open>
  \<open>tracks doc s s' evs us\<close>: from \<open>s\<close> to \<open>s'\<close> the anchor nodes \<open>evs\<close> were created, in
  this order (an object created later has a greater \<open>nid\<close>), for the upstream anchors
  \<open>us\<close>, and each was assigned to the \<open>anchors\<close> object of \<open>doc\<close> at its name.
\<close>

definition tracks :: "ref \<Rightarrow> state \<Rightarrow> state \<Rightarrow> YAMLAnchor list \<Rightarrow> Anchor list \<Rightarrow> bool" where
  "tracks doc s s' evs us =
     (doc_anchors s' doc = foldl (\<lambda>obj a. setProperty obj (name a) a) (doc_anchors s doc) evs
      \<and> map anchorKey evs = map upstreamKey us
      \<and> nextRef s \<le> nextRef s'
      \<and> list_all (\<lambda>a. nextRef s \<le> nid (anchor_node a) \<and> nid (anchor_node a) < nextRef s') evs
      \<and> sorted_wrt (<) (map (nid \<circ> anchor_node) evs))"


subsection \<open>Unsupported nodes\<close>

text \<open>
  The \<open>type\<close> of the first node outside the dispatch table that the walk reaches, in
  the order of the walk: the items of a collection in order, the key of a pair before its
  value, and of the children of a key, a value, a sequence item and a document body only
  the first.
\<close>

fun firstSome :: "'a option list \<Rightarrow> 'a option" where
  "firstSome [] = None"
| "firstSome (None # xs) = firstSome xs"
| "firstSome (Some x # xs) = Some x"

primrec unsupportedContent :: "ContentNode \<Rightarrow> jsstring option"
and unsupportedItem :: "MappingItem \<Rightarrow> jsstring option"
and unsupportedKey :: "MappingKey \<Rightarrow> jsstring option"
and unsupportedValue :: "MappingValue \<Rightarrow> jsstring option"
and unsupportedSequenceItem :: "SequenceItem \<Rightarrow> jsstring option"
and unsupportedFlowSequenceChild :: "FlowSequenceChild \<Rightarrow> jsstring option"
where
  "unsupportedContent (MappingNode p ch a t) = firstSome (map unsupportedItem ch)"
| "unsupportedContent (FlowMappingNode p ch a t) = firstSome (map unsupportedItem ch)"
| "unsupportedContent (SequenceNode p ch a t) = firstSome (map unsupportedSequenceItem ch)"
| "unsupportedContent (FlowSequenceNode p ch a t) =
     firstSome (map unsupportedFlowSequenceChild ch)"
| "unsupportedContent (PlainNode p v a t) = None"
| "unsupportedContent (QuoteDoubleNode p v a t) = None"
| "unsupportedContent (QuoteSingleNode p v a t) = None"
| "unsupportedContent (BlockLiteralNode p v c i a t) = None"
| "unsupportedContent (BlockFoldedNode p v c i a t) = None"
| "unsupportedContent (AliasNode p v a t) = None"
| "unsupportedContent (OtherNode ty) = Some ty"
| "unsupportedItem (MappingItemNode p k v) =
     (case unsupportedKey k of Some ty \<Rightarrow> Some ty | None \<Rightarrow> unsupportedValue v)"
| "unsupportedKey (MappingKeyNode p ch) = firstSome (take 1 (map unsupportedContent ch))"
| "unsupportedValue (MappingValueNode p ch) = firstSome (take 1 (map unsupportedContent ch))"
| "unsupportedSequenceItem (SequenceItemNode p ch) =
     firstSome (take 1 (map unsupportedContent ch))"
| "unsupportedFlowSequenceChild (FlowSequenceItem n) = unsupportedSequenceItem n"
| "unsupportedFlowSequenceChild (FlowMappingItem n) = unsupportedItem n"

definition unsupportedDocument :: "Document \<Rightarrow> jsstring option" where
  "unsupportedDocument d =
     (case d of DocumentNode p h (DocumentBodyNode q ch) \<Rightarrow>
        firstSome (take 1 (map unsupportedContent ch)))"

definition unsupportedRoot :: "Root \<Rightarrow> jsstring option" where
  "unsupportedRoot n =
     (case n of RootNode p ch cs \<Rightarrow> firstSome (map unsupportedDocument ch))"

text \<open>
  \<open>outcome u res\<close>: the result \<open>res\<close> of a conversion is the error for the node type
  \<open>u\<close> if there is one, and a value otherwise.
\<close>

definition outcome :: "jsstring option \<Rightarrow> error + 'a \<Rightarrow> bool" where
  "outcome u res =
     (case u of Some ty \<Rightarrow> res = Inl (UnsupportedNode ty) | None \<Rightarrow> (\<exists>r. res = Inr r))"

subsection \<open>Flow sequences\<close>

fun sequenceItem_children :: "SequenceItem \<Rightarrow> ContentNode list" where
  "sequenceItem_children (SequenceItemNode p ch) = ch"


text \<open>
  What one child \<open>n\<close> of a flow sequence contributes to \<open>entries\<close>, for a sequence \<open>ast\<close>
  with parent \<open>par\<close>: for a sequence item the conversion of its first child, with the
  sequence for parent, or nothing when it has no child; for a mapping item one block
  mapping, a new object with neither anchor nor tag, at the location of the item and with
  the parent of the sequence, whose only pair is the conversion of the item by
  \<open>convertMappingItem\<close> with that mapping for parent.
\<close>

definition flowSequenceEntries ::
  "yaml \<Rightarrow> jsstring \<Rightarrow> ref \<Rightarrow> ref \<Rightarrow> ref \<Rightarrow> FlowSequenceChild \<Rightarrow> YAMLContent list \<Rightarrow> bool" where
  "flowSequenceEntries y code ast par doc n es =
     (case n of
        FlowSequenceItem i \<Rightarrow>
          (case sequenceItem_children i of
             [] \<Rightarrow> es = []
           | c # cs \<Rightarrow> (\<exists>st st' e. convertContentNode c y code ast doc st = Inr (e, st') \<and> es = [e]))
      | FlowMappingItem m \<Rightarrow>
          (\<exists>st st' pr.
             convertMappingItem m y code (nextRef st) doc (alloc st) = Inr (pr, st')
             \<and> es = [YAMLMapping block [pr] None None
                       (mkNode (getConvertLocation (mappingItem_position m)) (nextRef st) par)]))"

text \<open>
  The parents in what one child of a flow sequence contributes, for a sequence \<open>ast\<close>
  with parent \<open>par\<close>.
\<close>

definition flowSequenceParents :: "ref \<Rightarrow> ref \<Rightarrow> FlowSequenceChild \<Rightarrow> YAMLContent list \<Rightarrow> bool" where
  "flowSequenceParents par ast n es =
     (case n of
        FlowSequenceItem i \<Rightarrow> list_all (\<lambda>e. parent (node e) = ast) es
      | FlowMappingItem m \<Rightarrow>
          length es = 1
          \<and> list_all (\<lambda>e. parent (node e) = par \<and> length (pairs e) = 1
                          \<and> list_all (\<lambda>pr. parent (pair_node pr) = nid (node e)) (pairs e)) es)"

subsection \<open>Reading the result\<close>

text \<open>
  The pairs of the mapping at the top of a document, and what is compared of a token:
  its type, its range, its value and the source text at its range.
\<close>

definition documentPairs :: "YAMLDocument \<Rightarrow> YAMLPair list" where
  "documentPairs d = (case content d of Some (YAMLMapping st ps an tg nd) \<Rightarrow> ps | _ \<Rightarrow> [])"

definition tokenSummary :: "jsstring \<Rightarrow> token \<Rightarrow> token_type \<times> (int \<times> int) \<times> jsstring \<times> jsstring" where
  "tokenSummary source t = (type t, range t, value t, slice source (fst (range t)) (snd (range t)))"

section \<open>Example inputs\<close>

text \<open>A point and a position on line 1, where the 1-based column is the offset plus one.\<close>

definition point1 :: "int \<Rightarrow> point" where
  "point1 off = \<lparr>line = 1, column = off + 1, offset = off\<rparr>"

definition span1 :: "int \<Rightarrow> int \<Rightarrow> unist_position" where
  "span1 a b = \<lparr>pos_start = point1 a, pos_end = point1 b\<rparr>"

text \<open>A position from offset \<open>a\<close> on line \<open>la\<close> to offset \<open>b\<close> on line \<open>lb\<close>, given the offsets at which the two lines start.\<close>

definition span :: "int \<Rightarrow> int \<Rightarrow> int \<Rightarrow> int \<Rightarrow> int \<Rightarrow> int \<Rightarrow> unist_position" where
  "span la sa a lb sb b =
     \<lparr>pos_start = \<lparr>line = la, column = a - sa + 1, offset = a\<rparr>,
      pos_end = \<lparr>line = lb, column = b - sb + 1, offset = b\<rparr>\<rparr>"

definition yaml_123 :: yaml where
  "yaml_123 =
     \<lparr>parse = (\<lambda>s. if s = js ''123'' then JNumber (Finite 123) else JString s),
      parseDocument_toJSON = (\<lambda>s. JNull),
      parseInt10 = (\<lambda>s. NaN)\<rparr>"

definition n_str_123 :: jsstring where
  "n_str_123 = js ''n: !!str 123''"

definition n_str_123_tree :: Root where
  "n_str_123_tree =
     RootNode (span1 0 12)
       [DocumentNode (span1 0 12) (DocumentHeadNode (span1 0 0) [])
          (DocumentBodyNode (span1 0 12)
             [MappingNode (span1 0 12)
                [MappingItemNode (span1 0 12)
                   (MappingKeyNode (span1 0 1) [PlainNode (span1 0 1) (js ''n'') None None])
                   (MappingValueNode (span1 1 12)
                      [PlainNode (span1 9 12) (js ''123'') None
                         (Some (TagNode (span1 3 8) (js ''tag:yaml.org,2002:str'')))])]
                None None])]
       []"

text \<open>\<open>"X": b\<close> where \<open>X\<close> is U+1F600, the two code units \<open>D83D DE00\<close>.\<close>

definition astral_key :: jsstring where
  "astral_key = js ''\"'' @ [0xD83D, 0xDE00] @ js ''\": b''"

definition astral_key_tree :: Root where
  "astral_key_tree =
     RootNode (span1 0 7)
       [DocumentNode (span1 0 7) (DocumentHeadNode (span1 0 0) [])
          (DocumentBodyNode (span1 0 7)
             [MappingNode (span1 0 7)
                [MappingItemNode (span1 0 7)
                   (MappingKeyNode (span1 0 4)
                      [QuoteDoubleNode (span1 0 4) [0xD83D, 0xDE00] None None])
                   (MappingValueNode (span1 4 7) [PlainNode (span1 6 7) (js ''b'') None None])]
                None None])]
       []"

text \<open>\<open># X\<close>, a newline, \<open>a: b\<close>: a comment with U+1F600, then a mapping on line 2.\<close>

definition astral_comment :: jsstring where
  "astral_comment = js ''# '' @ [0xD83D, 0xDE00, 0x0A] @ js ''a: b''"

definition astral_comment_tree :: Root where
  "astral_comment_tree =
     RootNode (span 1 0 0 2 5 9)
       [DocumentNode (span 2 5 5 2 5 9) (DocumentHeadNode (span 2 5 5 2 5 5) [])
          (DocumentBodyNode (span 2 5 5 2 5 9)
             [MappingNode (span 2 5 5 2 5 9)
                [MappingItemNode (span 2 5 5 2 5 9)
                   (MappingKeyNode (span 2 5 5 2 5 6)
                      [PlainNode (span 2 5 5 2 5 6) (js ''a'') None None])
                   (MappingValueNode (span 2 5 6 2 5 9)
                      [PlainNode (span 2 5 8 2 5 9) (js ''b'') None None])]
                None None])]
       [CommentNode (span 1 0 0 1 0 4) (js '' '' @ [0xD83D, 0xDE00])]"

text \<open>\<open>a: b.\<close> with no newline at the end: the document ends after the full stop.\<close>

definition ends_with_dot :: jsstring where
  "ends_with_dot = js ''a: b.''"

definition ends_with_dot_tree :: Root where
  "ends_with_dot_tree =
     RootNode (span1 0 5)
       [DocumentNode (span1 0 5) (DocumentHeadNode (span1 0 0) [])
          (DocumentBodyNode (span1 0 5)
             [MappingNode (span1 0 5)
                [MappingItemNode (span1 0 5)
                   (MappingKeyNode (span1 0 1) [PlainNode (span1 0 1) (js ''a'') None None])
                   (MappingValueNode (span1 1 5) [PlainNode (span1 3 5) (js ''b.'') None None])]
                None None])]
       []"

text \<open>
  \<open>- &a x\<close>, a newline, \<open>- &a y\<close>: a block sequence whose two items define the same
  anchor.
\<close>

definition same_anchor_twice :: jsstring where
  "same_anchor_twice = js ''- &a x'' @ [0x0A] @ js ''- &a y''"

definition same_anchor_twice_document :: Document where
  "same_anchor_twice_document =
     DocumentNode (span 1 0 0 2 7 13) (DocumentHeadNode (span 1 0 0 1 0 0) [])
       (DocumentBodyNode (span 1 0 0 2 7 13)
          [SequenceNode (span 1 0 0 2 7 13)
             [SequenceItemNode (span 1 0 0 1 0 6)
                [PlainNode (span 1 0 5 1 0 6) (js ''x'')
                   (Some (AnchorNode (span 1 0 2 1 0 4) (js ''a''))) None],
              SequenceItemNode (span 2 7 7 2 7 13)
                [PlainNode (span 2 7 12 2 7 13) (js ''y'')
                   (Some (AnchorNode (span 2 7 9 2 7 11) (js ''a''))) None]]
             None None])"

text \<open>
  \<open>- &__proto__ x\<close>, a line feed, \<open>- &a y\<close>: an anchor with the name of the accessor of
  the prototype of an object.
\<close>

definition proto_anchor :: jsstring where
  "proto_anchor = js ''- &__proto__ x'' @ [0x0A] @ js ''- &a y''"

definition proto_anchor_document :: Document where
  "proto_anchor_document =
     DocumentNode (span 1 0 0 2 15 21) (DocumentHeadNode (span 1 0 0 1 0 0) [])
       (DocumentBodyNode (span 1 0 0 2 15 21)
          [SequenceNode (span 1 0 0 2 15 21)
             [SequenceItemNode (span 1 0 0 1 0 14)
                [PlainNode (span 1 0 13 1 0 14) (js ''x'')
                   (Some (AnchorNode (span 1 0 2 1 0 12) (js ''__proto__''))) None],
              SequenceItemNode (span 2 15 15 2 15 21)
                [PlainNode (span 2 15 20 2 15 21) (js ''y'')
                   (Some (AnchorNode (span 2 15 17 2 15 19) (js ''a''))) None]]
             None None])"

text \<open>\<open>[a: b, c]\<close>: a flow sequence of a pair and a plain scalar, and an item with no body.\<close>

definition flow_pair_and_scalar :: jsstring where
  "flow_pair_and_scalar = js ''[a: b, c]''"

definition flow_pair_and_scalar_children :: "FlowSequenceChild list" where
  "flow_pair_and_scalar_children =
     [FlowMappingItem
        (MappingItemNode (span1 1 5)
           (MappingKeyNode (span1 1 2) [PlainNode (span1 1 2) (js ''a'') None None])
           (MappingValueNode (span1 2 5) [PlainNode (span1 4 5) (js ''b'') None None])),
      FlowSequenceItem (SequenceItemNode (span1 7 8) [PlainNode (span1 7 8) (js ''c'') None None]),
      FlowSequenceItem (SequenceItemNode (span1 8 8) [])]"

section \<open>The matcher decides the language\<close>

lemma nullable_lang: "nullable r \<longleftrightarrow> [] \<in> lang r"
  by (induction r) (auto simp: conc_def intro: star_empty)

lemma conc_Cons:
  "c # s \<in> conc A B \<longleftrightarrow>
     (\<exists>u v. s = u @ v \<and> c # u \<in> A \<and> v \<in> B) \<or> ([] \<in> A \<and> c # s \<in> B)"
proof
  assume "c # s \<in> conc A B"
  then obtain x v where x: "c # s = x @ v" "x \<in> A" "v \<in> B"
    unfolding conc_def by blast
  show "(\<exists>u v. s = u @ v \<and> c # u \<in> A \<and> v \<in> B) \<or> ([] \<in> A \<and> c # s \<in> B)"
  proof (cases x)
    case Nil
    with x show ?thesis by simp
  next
    case (Cons d u)
    with x have "s = u @ v" "c # u \<in> A" by simp_all
    with x(3) show ?thesis by blast
  qed
next
  assume "(\<exists>u v. s = u @ v \<and> c # u \<in> A \<and> v \<in> B) \<or> ([] \<in> A \<and> c # s \<in> B)"
  then show "c # s \<in> conc A B"
  proof
    assume "\<exists>u v. s = u @ v \<and> c # u \<in> A \<and> v \<in> B"
    then obtain u v where "s = u @ v" "c # u \<in> A" "v \<in> B" by blast
    then have "c # s = (c # u) @ v \<and> c # u \<in> A \<and> v \<in> B" by simp
    then show ?thesis unfolding conc_def by blast
  next
    assume "[] \<in> A \<and> c # s \<in> B"
    then have "c # s = [] @ (c # s) \<and> [] \<in> A \<and> c # s \<in> B" by simp
    then show ?thesis unfolding conc_def by blast
  qed
qed

lemma star_Cons_split:
  assumes "w \<in> star A" and "w = c # s"
  shows "\<exists>u v. s = u @ v \<and> c # u \<in> A \<and> v \<in> star A"
  using assms
proof (induction arbitrary: s)
  case star_empty
  then show ?case by simp
next
  case (star_more x y)
  show ?case
  proof (cases x)
    case Nil
    with star_more.prems have "y = c # s" by simp
    then show ?thesis by (rule star_more.IH)
  next
    case (Cons d u)
    with star_more.prems have "s = u @ y" "c # u = x" by simp_all
    with star_more.hyps show ?thesis by blast
  qed
qed

lemma star_Cons:
  "c # s \<in> star A \<longleftrightarrow> (\<exists>u v. s = u @ v \<and> c # u \<in> A \<and> v \<in> star A)"
proof
  assume "c # s \<in> star A"
  then show "\<exists>u v. s = u @ v \<and> c # u \<in> A \<and> v \<in> star A"
    by (rule star_Cons_split) simp
next
  assume "\<exists>u v. s = u @ v \<and> c # u \<in> A \<and> v \<in> star A"
  then obtain u v where s: "s = u @ v" and "c # u \<in> A" "v \<in> star A" by blast
  then have "(c # u) @ v \<in> star A" by (intro star_more)
  then show "c # s \<in> star A" by (simp add: s)
qed

lemma lang_deriv: "s \<in> lang (deriv c r) \<longleftrightarrow> c # s \<in> lang r"
proof (induction r arbitrary: s)
  case (Seq r1 r2)
  have "s \<in> conc (lang (deriv c r1)) (lang r2)
        \<longleftrightarrow> (\<exists>u v. s = u @ v \<and> c # u \<in> lang r1 \<and> v \<in> lang r2)"
    unfolding conc_def using Seq.IH(1) by blast
  then show ?case using Seq.IH(2) by (auto simp: conc_Cons nullable_lang)
next
  case (Star r)
  have "s \<in> conc (lang (deriv c r)) (star (lang r))
        \<longleftrightarrow> (\<exists>u v. s = u @ v \<and> c # u \<in> lang r \<and> v \<in> star (lang r))"
    unfolding conc_def using Star.IH by blast
  then show ?case by (simp add: star_Cons)
qed auto

lemma test_lang: "test r s \<longleftrightarrow> s \<in> lang r"
  by (induction s arbitrary: r) (simp_all add: nullable_lang lang_deriv)

section \<open>Blanking\<close>

text \<open>
  Blanking keeps the length of a text that has no high surrogate, and so keeps every
  offset after the blanked range. A surrogate pair becomes one space.
\<close>

lemma replaceNonSpace_length:
  "(\<And>c. c \<in> set s \<Longrightarrow> \<not> isHighSurrogate c) \<Longrightarrow> length (replaceNonSpace s) = length s"
  by (induction s rule: replaceNonSpace.induct) auto

lemma replaceNonSpace_surrogate_pair: "replaceNonSpace [0xD83D, 0xDE00] = [0x20]"
  by (simp add: isHighSurrogate_def isLowSurrogate_def)

lemma slice_lengths:
  assumes "0 \<le> a" and "a \<le> b"
  shows "length (slice s 0 a) + length (slice s a b) + length (sliceFrom s b) = length s"
  using assms by (auto simp: slice_def sliceFrom_def relIndex_def Let_def min_def max_def)

lemma set_slice: "set (slice s a b) \<subseteq> set s"
  unfolding slice_def Let_def by (meson order_trans set_drop_subset set_take_subset)

lemma stripRange_length:
  assumes "0 \<le> fst r" and "fst r \<le> snd r" and "\<And>c. c \<in> set s \<Longrightarrow> \<not> isHighSurrogate c"
  shows "length (stripRange s r) = length s"
proof -
  have "length (replaceNonSpace (slice s (fst r) (snd r))) = length (slice s (fst r) (snd r))"
  proof (rule replaceNonSpace_length)
    fix c
    assume "c \<in> set (slice s (fst r) (snd r))"
    then have "c \<in> set s" using set_slice[of s "fst r" "snd r"] by auto
    then show "\<not> isHighSurrogate c" by (rule assms(3))
  qed
  then show ?thesis
    using slice_lengths[OF assms(1,2), of s] by (simp add: stripRange_def)
qed

lemma stripRange_astral_key_shorter: "length (stripRange astral_key (0, 4)) = 6 \<and> length astral_key = 7"
  by code_simp

section \<open>Facts about the walk\<close>

subsection \<open>The only error is the unsupported node\<close>

lemma outcome_None [simp]: "outcome None res = (\<exists>r. res = Inr r)"
  by (simp add: outcome_def)

lemma outcome_Some [simp]: "outcome (Some ty) res = (res = Inl (UnsupportedNode ty))"
  by (simp add: outcome_def)

lemma outcome_forEach:
  assumes "\<And>n s. n \<in> set ch \<Longrightarrow> outcome (g n) (f n s)"
  shows "outcome (firstSome (map g ch)) (forEach (map f ch) s)"
  using assms
proof (induction ch arbitrary: s)
  case Nil
  then show ?case by simp
next
  case (Cons n ns)
  have n: "outcome (g n) (f n s)" by (rule Cons.prems) simp
  show ?case
  proof (cases "g n")
    case (Some ty)
    with n show ?thesis by simp
  next
    case None
    with n obtain x s1 where x: "f n s = Inr (x, s1)" by auto
    have "outcome (firstSome (map g ns)) (forEach (map f ns) s1)"
      by (rule Cons.IH) (simp add: Cons.prems)
    then show ?thesis using None x
      by (cases "firstSome (map g ns)") auto
  qed
qed

lemma outcome_convertMapping:
  assumes "\<And>ast s. outcome u (loop ast s)"
  shows "outcome u (convertMapping loop p a t code par doc s)"
  using assms[of "nextRef s" "alloc s"]
  by (cases u) (auto simp: convertMapping_def split: prod.splits)

lemma outcome_convertFlowMapping:
  assumes "\<And>ast s. outcome u (loop ast s)"
  shows "outcome u (convertFlowMapping loop p a t code par doc s)"
  using assms[of "nextRef s" "alloc s"]
  by (cases u) (auto simp: convertFlowMapping_def split: prod.splits)

lemma outcome_convertSequence:
  assumes "\<And>ast s. outcome u (loop ast s)"
  shows "outcome u (convertSequence loop p a t code par doc s)"
  using assms[of "nextRef s" "alloc s"]
  by (cases u) (auto simp: convertSequence_def split: prod.splits)

lemma outcome_convertFlowSequence:
  assumes "\<And>ast s. outcome u (loop ast s)"
  shows "outcome u (convertFlowSequence loop p a t code par doc s)"
  using assms[of "nextRef s" "alloc s"]
  by (cases u) (auto simp: convertFlowSequence_def split: prod.splits)

lemma outcome_walk:
  fixes c :: ContentNode and mi :: MappingItem and mk :: MappingKey and mv :: MappingValue
    and si :: SequenceItem and fc :: FlowSequenceChild
  shows "outcome (unsupportedContent c) (convertContentNode c y code par doc s)"
    and "outcome (unsupportedItem mi) (convertMappingItem mi y code par doc s)"
    and "outcome (unsupportedKey mk) (convertMappingKey mk y code par doc s)"
    and "outcome (unsupportedValue mv) (convertMappingValue mv y code par doc s)"
    and "outcome (unsupportedSequenceItem si) (convertSequenceItem si y code par doc s)"
    and "outcome (unsupportedFlowSequenceChild fc)
           (convertFlowSequenceChild fc y code ast par doc s)"
proof (induction c and mi and mk and mv and si and fc
    arbitrary: par s and par s and par s and par s and par s and ast par s)
  case (MappingNode p ch a t)
  show ?case
    unfolding convertContentNode.simps unsupportedContent.simps
    by (rule outcome_convertMapping, rule outcome_forEach, rule MappingNode.IH)
next
  case (FlowMappingNode p ch a t)
  show ?case
    unfolding convertContentNode.simps unsupportedContent.simps
    by (rule outcome_convertFlowMapping, rule outcome_forEach, rule FlowMappingNode.IH)
next
  case (SequenceNode p ch a t)
  show ?case
    unfolding convertContentNode.simps unsupportedContent.simps
    by (rule outcome_convertSequence, rule outcome_forEach, rule SequenceNode.IH)
next
  case (FlowSequenceNode p ch a t)
  show ?case
    unfolding convertContentNode.simps unsupportedContent.simps
    by (rule outcome_convertFlowSequence, rule outcome_forEach, rule FlowSequenceNode.IH)
next
  case (MappingItemNode p k v)
  show ?case
  proof (cases "unsupportedKey k")
    case (Some ty)
    then show ?thesis using MappingItemNode.IH(1)[of "nextRef s" "alloc s"] by simp
  next
    case None
    then obtain ky s1 where
      k: "convertMappingKey k y code (nextRef s) doc (alloc s) = Inr (ky, s1)"
      using MappingItemNode.IH(1)[of "nextRef s" "alloc s"] by auto
    show ?thesis using None k MappingItemNode.IH(2)[of "nextRef s" s1]
      by (cases "unsupportedValue v") auto
  qed
next
  case (MappingKeyNode p ch)
  show ?case
  proof (cases ch)
    case Nil
    then show ?thesis by simp
  next
    case (Cons c cs)
    then show ?thesis using MappingKeyNode.IH[of c par s]
      by (cases "unsupportedContent c") auto
  qed
next
  case (MappingValueNode p ch)
  show ?case
  proof (cases ch)
    case Nil
    then show ?thesis by simp
  next
    case (Cons c cs)
    then show ?thesis using MappingValueNode.IH[of c par s]
      by (cases "unsupportedContent c") auto
  qed
next
  case (SequenceItemNode p ch)
  show ?case
  proof (cases ch)
    case Nil
    then show ?thesis by simp
  next
    case (Cons c cs)
    then show ?thesis using SequenceItemNode.IH[of c par s]
      by (cases "unsupportedContent c") auto
  qed
next
  case (FlowMappingItem n)
  show ?case using FlowMappingItem.IH[of "nextRef s" "alloc s"]
    by (cases "unsupportedItem n") auto
qed simp_all

lemma outcome_convertDocument:
  "outcome (unsupportedDocument d) (convertDocument d y code par s)"
proof -
  obtain p h q ch where d: "d = DocumentNode p h (DocumentBodyNode q ch)"
    by (cases d) (metis DocumentBody.exhaust)
  show ?thesis
  proof (cases ch)
    case Nil
    then show ?thesis
      by (simp add: d unsupportedDocument_def convertDocument_def convertDocumentBody_def
          Let_def split: prod.splits)
  next
    case (Cons c cs)
    obtain ds s1 where h: "convertDocumentHead h code (nextRef s)
        ((alloc s)\<lparr>doc_anchors := (doc_anchors s)(nextRef s := emptyObject)\<rparr>) = (ds, s1)"
      by force
    show ?thesis using outcome_walk(1)[of c y code "nextRef s" "nextRef s" s1] Cons h
      by (cases "unsupportedContent c")
        (auto simp: d unsupportedDocument_def convertDocument_def convertDocumentBody_def
          Let_def)
  qed
qed

subsection \<open>Anchors are registered in the order of conversion\<close>

lemma tracks_same:
  "doc_anchors s' = doc_anchors s \<Longrightarrow> nextRef s \<le> nextRef s' \<Longrightarrow> tracks doc s s' [] []"
  by (simp add: tracks_def)

lemma tracks_trans:
  assumes "tracks doc s s1 e1 u1" and "tracks doc s1 s2 e2 u2"
  shows "tracks doc s s2 (e1 @ e2) (u1 @ u2)"
proof -
  have "sorted_wrt (<) (map (nid \<circ> anchor_node) (e1 @ e2))"
    using assms unfolding tracks_def
    by (fastforce simp: sorted_wrt_append list_all_iff)
  moreover have "list_all (\<lambda>a. nextRef s \<le> nid (anchor_node a) \<and> nid (anchor_node a) < nextRef s2)
      (e1 @ e2)"
    using assms unfolding tracks_def by (fastforce simp: list_all_iff)
  ultimately show ?thesis using assms unfolding tracks_def by simp
qed

lemma tracks_addToken [simp]: "tracks doc s (addToken ty l code s) [] []"
  by (rule tracks_same) (simp_all add: addToken_def)

lemma tracks_alloc [simp]: "tracks doc s (alloc s) [] []"
  by (rule tracks_same) (simp_all add: alloc_def)

lemma tracks_addToken_after:
  "tracks doc s s1 evs us \<Longrightarrow> tracks doc s (addToken ty l code s1) evs us"
  using tracks_trans[of doc s s1 evs us "addToken ty l code s1" "[]" "[]"] by simp

lemma tracks_after_alloc:
  "tracks doc (alloc s) s1 evs us \<Longrightarrow> tracks doc s s1 evs us"
  using tracks_trans[of doc s "alloc s" "[]" "[]" s1 evs us] by simp

lemma tracks_convertAnchor:
  "tracks doc s (snd (convertAnchor n code par doc s)) [fst (convertAnchor n code par doc s)] [n]"
  by (simp add: convertAnchor_def Let_def tracks_def addToken_def alloc_def anchorKey_def
      upstreamKey_def locationsOf_def mkNode_def)

lemma tracks_convertTag: "tracks doc s (snd (convertTag n code par s)) [] []"
  by (rule tracks_same) (simp_all add: convertTag_def Let_def addToken_def alloc_def)

lemma tracks_convertAnchorAndTag:
  assumes "convertAnchorAndTag a t code par doc s = (an, tg, s1)"
  shows "tracks doc s s1 (optionList an) (optionList a)"
proof -
  define s0 where "s0 = (case a of None \<Rightarrow> s | Some n \<Rightarrow> snd (convertAnchor n code par doc s))"
  have an: "an = map_option (\<lambda>n. fst (convertAnchor n code par doc s)) a"
    and s1: "s1 = (case t of None \<Rightarrow> s0 | Some n \<Rightarrow> snd (convertTag n code par s0))"
    using assms by (auto simp: convertAnchorAndTag_def s0_def split: option.splits)
  have "tracks doc s s0 (optionList an) (optionList a)"
    unfolding an s0_def
    by (cases a) (simp_all add: optionList_def tracks_convertAnchor tracks_same)
  moreover have "tracks doc s0 s1 [] []"
    unfolding s1 by (cases t) (simp_all add: tracks_convertTag tracks_same)
  ultimately show ?thesis using tracks_trans by fastforce
qed

lemma tracks_blockTokens_after:
  "tracks doc s s1 evs us \<Longrightarrow> tracks doc s (blockTokens ind ty l code s1) evs us"
proof -
  have "tracks doc s1 (blockTokens ind ty l code s1) [] []"
    by (rule tracks_same)
      (simp_all add: blockTokens_def addToken_def Let_def split: prod.splits)
  then show "tracks doc s s1 evs us \<Longrightarrow> tracks doc s (blockTokens ind ty l code s1) evs us"
    using tracks_trans[of doc s s1 evs us "blockTokens ind ty l code s1" "[]" "[]"] by simp
qed

lemma tracks_node:
  assumes "convertAnchorAndTag a t code (nextRef s) doc (alloc s) = (an, tg, s1)"
  shows "tracks doc s s1 (optionList an) (optionList a)"
  by (rule tracks_after_alloc) (rule tracks_convertAnchorAndTag[OF assms])

lemma tracks_convertPlain:
  "tracks doc s (snd (convertPlain y p v a t code par doc s))
     (convertedAnchors (fst (convertPlain y p v a t code par doc s))) (optionList a)"
proof -
  obtain an tg s1 where 1: "convertAnchorAndTag a t code (nextRef s) doc (alloc s) = (an, tg, s1)"
    by (metis prod_cases3)
  show ?thesis using tracks_node[OF 1]
    by (simp add: convertPlain_def Let_def 1 tracks_addToken_after)
qed

lemma tracks_convertQuoteDouble:
  "tracks doc s (snd (convertQuoteDouble p v a t code par doc s))
     (convertedAnchors (fst (convertQuoteDouble p v a t code par doc s))) (optionList a)"
proof -
  obtain an tg s1 where 1: "convertAnchorAndTag a t code (nextRef s) doc (alloc s) = (an, tg, s1)"
    by (metis prod_cases3)
  show ?thesis using tracks_node[OF 1]
    by (simp add: convertQuoteDouble_def Let_def 1 tracks_addToken_after)
qed

lemma tracks_convertQuoteSingle:
  "tracks doc s (snd (convertQuoteSingle p v a t code par doc s))
     (convertedAnchors (fst (convertQuoteSingle p v a t code par doc s))) (optionList a)"
proof -
  obtain an tg s1 where 1: "convertAnchorAndTag a t code (nextRef s) doc (alloc s) = (an, tg, s1)"
    by (metis prod_cases3)
  show ?thesis using tracks_node[OF 1]
    by (simp add: convertQuoteSingle_def Let_def 1 tracks_addToken_after)
qed

lemma tracks_convertBlockLiteral:
  "tracks doc s (snd (convertBlockLiteral p v ch ind a t code par doc s))
     (convertedAnchors (fst (convertBlockLiteral p v ch ind a t code par doc s))) (optionList a)"
proof -
  obtain an tg s1 where 1: "convertAnchorAndTag a t code (nextRef s) doc (alloc s) = (an, tg, s1)"
    by (metis prod_cases3)
  show ?thesis using tracks_node[OF 1]
    by (simp add: convertBlockLiteral_def Let_def 1 tracks_blockTokens_after)
qed

lemma tracks_convertBlockFolded:
  "tracks doc s (snd (convertBlockFolded p v ch ind a t code par doc s))
     (convertedAnchors (fst (convertBlockFolded p v ch ind a t code par doc s))) (optionList a)"
proof -
  obtain an tg s1 where 1: "convertAnchorAndTag a t code (nextRef s) doc (alloc s) = (an, tg, s1)"
    by (metis prod_cases3)
  show ?thesis using tracks_node[OF 1]
    by (simp add: convertBlockFolded_def Let_def 1 tracks_blockTokens_after)
qed

lemma tracks_convertAlias:
  "tracks doc s (snd (convertAlias p v a t code par doc s))
     (convertedAnchors (fst (convertAlias p v a t code par doc s))) (optionList a)"
proof -
  obtain an tg s1 where 1: "convertAnchorAndTag a t code (nextRef s) doc (alloc s) = (an, tg, s1)"
    by (metis prod_cases3)
  show ?thesis using tracks_node[OF 1]
    by (simp add: convertAlias_def Let_def 1 tracks_addToken_after)
qed

lemma tracks_forEach_map:
  assumes "\<And>n s r s'. n \<in> set ch \<Longrightarrow> f n s = Inr (r, s') \<Longrightarrow> tracks doc s s' (g r) (u n)"
    and "forEach (map f ch) s = Inr (rs, s')"
  shows "tracks doc s s' (concat (map g rs)) (concat (map u ch))"
  using assms
proof (induction ch arbitrary: s rs)
  case Nil
  then show ?case by (auto intro: tracks_same)
next
  case (Cons n ns)
  from Cons.prems(2) obtain x s1 xs where
    n: "f n s = Inr (x, s1)" and rest: "forEach (map f ns) s1 = Inr (xs, s')" and
    rs: "rs = x # xs"
    by (auto split: sum.splits)
  have "tracks doc s s1 (g x) (u n)" using Cons.prems(1)[of n s x s1] n by simp
  moreover have "tracks doc s1 s' (concat (map g xs)) (concat (map u ns))"
    by (rule Cons.IH[OF _ rest]) (rule Cons.prems(1), simp_all)
  ultimately show ?case unfolding rs using tracks_trans by fastforce
qed

lemma concat_map_concat:
  "concat (map (\<lambda>l. concat (map f l)) xs) = concat (map f (concat xs))"
  by (induction xs) simp_all

lemma tracks_convertMapping:
  assumes "\<And>ast s ps s'. loop ast s = Inr (ps, s')
             \<Longrightarrow> tracks doc s s' (concat (map convertedPairAnchors ps)) us"
    and "convertMapping loop p a t code par doc s = Inr (r, s')"
  shows "tracks doc s s' (convertedAnchors r) (us @ optionList a)"
proof -
  from assms(2) obtain ps s1 an tg where
    1: "loop (nextRef s) (alloc s) = Inr (ps, s1)" and
    2: "convertAnchorAndTag a t code (nextRef s) doc s1 = (an, tg, s')" and
    r: "convertedAnchors r = concat (map convertedPairAnchors ps) @ optionList an"
    unfolding convertMapping_def by (auto split: sum.splits prod.splits)
  have "tracks doc s s1 (concat (map convertedPairAnchors ps)) us"
    by (rule tracks_after_alloc) (rule assms(1)[OF 1])
  then show ?thesis unfolding r
    by (rule tracks_trans) (rule tracks_convertAnchorAndTag[OF 2])
qed

lemma tracks_convertFlowMapping:
  assumes "\<And>ast s ps s'. loop ast s = Inr (ps, s')
             \<Longrightarrow> tracks doc s s' (concat (map convertedPairAnchors ps)) us"
    and "convertFlowMapping loop p a t code par doc s = Inr (r, s')"
  shows "tracks doc s s' (convertedAnchors r) (us @ optionList a)"
proof -
  from assms(2) obtain ps s1 an tg where
    1: "loop (nextRef s) (alloc s) = Inr (ps, s1)" and
    2: "convertAnchorAndTag a t code (nextRef s) doc s1 = (an, tg, s')" and
    r: "convertedAnchors r = concat (map convertedPairAnchors ps) @ optionList an"
    unfolding convertFlowMapping_def by (auto split: sum.splits prod.splits)
  have "tracks doc s s1 (concat (map convertedPairAnchors ps)) us"
    by (rule tracks_after_alloc) (rule assms(1)[OF 1])
  then show ?thesis unfolding r
    by (rule tracks_trans) (rule tracks_convertAnchorAndTag[OF 2])
qed

lemma tracks_convertSequence:
  assumes "\<And>ast s es s'. loop ast s = Inr (es, s')
             \<Longrightarrow> tracks doc s s' (concat (map convertedAnchors (concat es))) us"
    and "convertSequence loop p a t code par doc s = Inr (r, s')"
  shows "tracks doc s s' (convertedAnchors r) (us @ optionList a)"
proof -
  from assms(2) obtain es s1 an tg where
    1: "loop (nextRef s) (alloc s) = Inr (es, s1)" and
    2: "convertAnchorAndTag a t code (nextRef s) doc s1 = (an, tg, s')" and
    r: "convertedAnchors r = concat (map convertedAnchors (concat es)) @ optionList an"
    unfolding convertSequence_def by (auto split: sum.splits prod.splits)
  have "tracks doc s s1 (concat (map convertedAnchors (concat es))) us"
    by (rule tracks_after_alloc) (rule assms(1)[OF 1])
  then show ?thesis unfolding r
    by (rule tracks_trans) (rule tracks_convertAnchorAndTag[OF 2])
qed

lemma tracks_convertFlowSequence:
  assumes "\<And>ast s es s'. loop ast s = Inr (es, s')
             \<Longrightarrow> tracks doc s s' (concat (map convertedAnchors (concat es))) us"
    and "convertFlowSequence loop p a t code par doc s = Inr (r, s')"
  shows "tracks doc s s' (convertedAnchors r) (us @ optionList a)"
proof -
  from assms(2) obtain es s1 an tg where
    1: "loop (nextRef s) (alloc s) = Inr (es, s1)" and
    2: "convertAnchorAndTag a t code (nextRef s) doc s1 = (an, tg, s')" and
    r: "convertedAnchors r = concat (map convertedAnchors (concat es)) @ optionList an"
    unfolding convertFlowSequence_def by (auto split: sum.splits prod.splits)
  have "tracks doc s s1 (concat (map convertedAnchors (concat es))) us"
    by (rule tracks_after_alloc) (rule assms(1)[OF 1])
  then show ?thesis unfolding r
    by (rule tracks_trans) (rule tracks_convertAnchorAndTag[OF 2])
qed

lemma tracks_first_child:
  assumes "\<And>c s r s'. c \<in> set ch \<Longrightarrow> f c s = Inr (r, s')
             \<Longrightarrow> tracks doc s s' (convertedAnchors r) (walkedAnchors c)"
    and "(case map f ch of [] \<Rightarrow> Inr (e, s)
          | first # _ \<Rightarrow> (case first s of Inl x \<Rightarrow> Inl x | Inr (r, s1) \<Rightarrow> Inr (k r, s1)))
         = Inr (res, s')"
    and "g e = []" and "\<And>r. g (k r) = convertedAnchors r"
  shows "tracks doc s s' (g res) (concat (take 1 (map walkedAnchors ch)))"
proof (cases ch)
  case Nil
  with assms(2,3) show ?thesis by (auto intro: tracks_same)
next
  case (Cons c cs)
  with assms(2) obtain r where r: "f c s = Inr (r, s')" and res: "res = k r"
    by (auto split: sum.splits)
  have "tracks doc s s' (convertedAnchors r) (walkedAnchors c)"
    by (rule assms(1)[OF _ r]) (simp add: Cons)
  then show ?thesis by (simp add: Cons res assms(4))
qed

lemma tracks_walk:
  fixes c :: ContentNode and mi :: MappingItem and mk :: MappingKey and mv :: MappingValue
    and si :: SequenceItem and fc :: FlowSequenceChild
  shows "convertContentNode c y code par doc s = Inr (r1, s')
           \<Longrightarrow> tracks doc s s' (convertedAnchors r1) (walkedAnchors c)"
    and "convertMappingItem mi y code par doc s = Inr (r2, s')
           \<Longrightarrow> tracks doc s s' (convertedPairAnchors r2) (walkedItemAnchors mi)"
    and "convertMappingKey mk y code par doc s = Inr (r3, s')
           \<Longrightarrow> tracks doc s s' (concat (optionList (map_option convertedAnchors r3)))
                 (walkedKeyAnchors mk)"
    and "convertMappingValue mv y code par doc s = Inr (r4, s')
           \<Longrightarrow> tracks doc s s' (concat (optionList (map_option convertedAnchors r4)))
                 (walkedValueAnchors mv)"
    and "convertSequenceItem si y code par doc s = Inr (r5, s')
           \<Longrightarrow> tracks doc s s' (concat (map convertedAnchors r5)) (walkedSequenceItemAnchors si)"
    and "convertFlowSequenceChild fc y code ast par doc s = Inr (r6, s')
           \<Longrightarrow> tracks doc s s' (concat (map convertedAnchors r6))
                 (walkedFlowSequenceChildAnchors fc)"
proof (induction c and mi and mk and mv and si and fc
    arbitrary: par s r1 s' and par s r2 s' and par s r3 s' and par s r4 s'
      and par s r5 s' and ast par s r6 s')
  case (MappingNode p ch a t)
  show ?case unfolding walkedAnchors.simps
    by (rule tracks_convertMapping[OF _ MappingNode.prems[simplified]])
      (erule tracks_forEach_map[rotated], erule (1) MappingNode.IH)
next
  case (FlowMappingNode p ch a t)
  show ?case unfolding walkedAnchors.simps
    by (rule tracks_convertFlowMapping[OF _ FlowMappingNode.prems[simplified]])
      (erule tracks_forEach_map[rotated], erule (1) FlowMappingNode.IH)
next
  case (SequenceNode p ch a t)
  show ?case unfolding walkedAnchors.simps
    by (rule tracks_convertSequence[OF _ SequenceNode.prems[simplified]])
      (unfold concat_map_concat[symmetric], erule tracks_forEach_map[rotated],
        erule (1) SequenceNode.IH)
next
  case (FlowSequenceNode p ch a t)
  show ?case unfolding walkedAnchors.simps
    by (rule tracks_convertFlowSequence[OF _ FlowSequenceNode.prems[simplified]])
      (unfold concat_map_concat[symmetric], erule tracks_forEach_map[rotated],
        erule (1) FlowSequenceNode.IH)
next
  case (PlainNode p v a t)
  then show ?case using tracks_convertPlain[of doc s y p v a t code par] by auto
next
  case (QuoteDoubleNode p v a t)
  then show ?case using tracks_convertQuoteDouble[of doc s p v a t code par] by auto
next
  case (QuoteSingleNode p v a t)
  then show ?case using tracks_convertQuoteSingle[of doc s p v a t code par] by auto
next
  case (BlockLiteralNode p v ch ind a t)
  then show ?case using tracks_convertBlockLiteral[of doc s p v ch ind a t code par] by auto
next
  case (BlockFoldedNode p v ch ind a t)
  then show ?case using tracks_convertBlockFolded[of doc s p v ch ind a t code par] by auto
next
  case (AliasNode p v a t)
  then show ?case using tracks_convertAlias[of doc s p v a t code par] by auto
next
  case (OtherNode ty)
  then show ?case by simp
next
  case (MappingItemNode p k v)
  from MappingItemNode.prems obtain ky s1 vl where
    k: "convertMappingKey k y code (nextRef s) doc (alloc s) = Inr (ky, s1)" and
    v: "convertMappingValue v y code (nextRef s) doc s1 = Inr (vl, s')" and
    r: "convertedPairAnchors r2 = concat (optionList (map_option convertedAnchors ky))
          @ concat (optionList (map_option convertedAnchors vl))"
    by (auto split: sum.splits)
  have "tracks doc s s1 (concat (optionList (map_option convertedAnchors ky)))
          (walkedKeyAnchors k)"
    by (rule tracks_after_alloc) (rule MappingItemNode.IH(1)[OF k])
  then show ?case unfolding r walkedItemAnchors.simps
    by (rule tracks_trans) (rule MappingItemNode.IH(2)[OF v])
next
  case (MappingKeyNode p ch)
  show ?case unfolding walkedKeyAnchors.simps
    by (rule tracks_first_child[where f = "\<lambda>c. convertContentNode c y code par doc"
          and k = Some and e = None, OF _ MappingKeyNode.prems[simplified]])
      (erule (1) MappingKeyNode.IH, simp_all add: optionList_def)
next
  case (MappingValueNode p ch)
  show ?case unfolding walkedValueAnchors.simps
    by (rule tracks_first_child[where f = "\<lambda>c. convertContentNode c y code par doc"
          and k = Some and e = None, OF _ MappingValueNode.prems[simplified]])
      (erule (1) MappingValueNode.IH, simp_all add: optionList_def)
next
  case (SequenceItemNode p ch)
  show ?case unfolding walkedSequenceItemAnchors.simps
    by (rule tracks_first_child[where f = "\<lambda>c. convertContentNode c y code par doc"
          and k = "\<lambda>r. [r]" and e = "[]", OF _ SequenceItemNode.prems[simplified]])
      (erule (1) SequenceItemNode.IH, simp_all)
next
  case (FlowSequenceItem n)
  then show ?case by simp
next
  case (FlowMappingItem n)
  from FlowMappingItem.prems obtain pr where
    pr: "convertMappingItem n y code (nextRef s) doc (alloc s) = Inr (pr, s')" and
    r: "concat (map convertedAnchors r6) = convertedPairAnchors pr"
    by (auto simp: optionList_def split: sum.splits)
  show ?case unfolding r walkedFlowSequenceChildAnchors.simps
    by (rule tracks_after_alloc) (rule FlowMappingItem.IH[OF pr])
qed

lemma lastNamed_filter:
  "lastNamed nm evs =
     (if filter (\<lambda>a. name a = nm) evs = [] then None
      else Some (last (filter (\<lambda>a. name a = nm) evs)))"
  by (simp add: lastNamed_def split: list.splits)

lemma lastNamed_snoc:
  "lastNamed nm (evs @ [a]) = (if name a = nm then Some a else lastNamed nm evs)"
  by (simp add: lastNamed_filter)

lemma own_setProperty:
  "own (setProperty obj k a) nm =
     (if k = js ''__proto__'' then own obj nm else if nm = k then Some a else own obj nm)"
  by (simp add: setProperty_def)

lemma prototype_setProperty:
  "prototype (setProperty obj k a) =
     (if k = js ''__proto__'' then NodePrototype a else prototype obj)"
  by (simp add: setProperty_def)

lemma foldl_setProperty_own:
  "own (foldl (\<lambda>obj a. setProperty obj (name a) a) obj0 evs) nm =
     (if nm = js ''__proto__'' then own obj0 nm
      else case lastNamed nm evs of None \<Rightarrow> own obj0 nm | Some a \<Rightarrow> Some a)"
proof (induction evs rule: rev_induct)
  case Nil
  then show ?case by (simp add: lastNamed_def)
next
  case (snoc a evs)
  then show ?case by (auto simp: lastNamed_snoc own_setProperty)
qed

lemma foldl_setProperty_prototype:
  "prototype (foldl (\<lambda>obj a. setProperty obj (name a) a) obj0 evs) =
     (case lastNamed (js ''__proto__'') evs of None \<Rightarrow> prototype obj0
      | Some a \<Rightarrow> NodePrototype a)"
proof (induction evs rule: rev_induct)
  case Nil
  then show ?case by (simp add: lastNamed_def)
next
  case (snoc a evs)
  then show ?case by (auto simp: lastNamed_snoc prototype_setProperty)
qed

lemma registry_of_empty:
  assumes "obj = foldl (\<lambda>obj a. setProperty obj (name a) a) emptyObject evs"
  shows "case lastNamed nm evs of
           Some a \<Rightarrow> getProperty obj nm = AnchorValue a
         | None \<Rightarrow> own obj nm = None \<and> (\<forall>x. getProperty obj nm \<noteq> AnchorValue x)"
  unfolding assms
  by (cases "nm = js ''__proto__''")
    (auto simp: getProperty_def foldl_setProperty_own foldl_setProperty_prototype
      emptyObject_def split: option.splits)

lemma convertDirectives_anchors:
  "convertDirectives ns code par s = (ds, s')
   \<Longrightarrow> doc_anchors s' = doc_anchors s \<and> nextRef s \<le> nextRef s'"
proof (induction ns arbitrary: s ds s')
  case Nil
  then show ?case by simp
next
  case (Cons n ns)
  obtain d s1 where 1: "convertDirective n code par s = (d, s1)" by force
  obtain ds' s2 where 2: "convertDirectives ns code par s1 = (ds', s2)" by force
  have "doc_anchors s1 = doc_anchors s \<and> nextRef s \<le> nextRef s1"
    using 1 by (auto simp: convertDirective_def addToken_def alloc_def Let_def
        split: Directive.splits)
  moreover have "s' = s2" using Cons.prems 1 2 by simp
  ultimately show ?case using Cons.IH[OF 2] by simp
qed

lemma tracks_convertDocumentHead:
  "convertDocumentHead h code par s = (ds, s') \<Longrightarrow> tracks doc s s' [] []"
proof -
  assume a: "convertDocumentHead h code par s = (ds, s')"
  obtain p ch where h: "h = DocumentHeadNode p ch" by (cases h)
  obtain ds1 s1 where 1: "convertDirectives ch code par s = (ds1, s1)" by force
  have "tracks doc s s1 [] []" using convertDirectives_anchors[OF 1] by (auto intro: tracks_same)
  moreover have "s' = s1 \<or> s' = addToken Marker (markerLoc (getConvertLocation p)) code s1"
    using a 1 unfolding h convertDocumentHead_def by (auto simp: Let_def split: if_splits)
  ultimately show ?thesis by (auto intro: tracks_addToken_after)
qed

lemma tracks_convertDocumentBody:
  assumes "convertDocumentBody b y code doc s = Inr (r, s')"
  shows "tracks doc s s' (concat (optionList (map_option convertedAnchors r)))
           (case b of DocumentBodyNode q ch \<Rightarrow> concat (take 1 (map walkedAnchors ch)))"
proof -
  obtain q ch where b: "b = DocumentBodyNode q ch" by (cases b)
  show ?thesis
  proof (cases ch)
    case Nil
    with assms show ?thesis
      by (auto simp: b convertDocumentBody_def optionList_def intro: tracks_same)
  next
    case (Cons c cs)
    with assms obtain r' where
      "convertContentNode c y code doc doc s = Inr (r', s')" and "r = Some r'"
      by (auto simp: b convertDocumentBody_def split: sum.splits)
    then show ?thesis using tracks_walk(1)[of c y code doc doc s r' s']
      by (simp add: b Cons optionList_def)
  qed
qed


subsection \<open>What a loop over children returns\<close>

lemma forEach_list_all2:
  assumes "\<And>n s r s'. n \<in> set ch \<Longrightarrow> f n s = Inr (r, s') \<Longrightarrow> R n r"
    and "forEach (map f ch) s = Inr (rs, s')"
  shows "list_all2 R ch rs"
  using assms
proof (induction ch arbitrary: s rs)
  case Nil
  then show ?case by simp
next
  case (Cons n ns)
  from Cons.prems(2) obtain x s1 xs where
    n: "f n s = Inr (x, s1)" and rest: "forEach (map f ns) s1 = Inr (xs, s')" and
    rs: "rs = x # xs"
    by (auto split: sum.splits)
  have "R n x" using Cons.prems(1)[of n s x s1] n by simp
  moreover have "list_all2 R ns xs"
    by (rule Cons.IH[OF _ rest]) (rule Cons.prems(1), simp_all)
  ultimately show ?case using rs by simp
qed

lemma convertMappingItem_node:
  assumes "convertMappingItem m y code par doc s = Inr (pr, s')"
  shows "locationsOf (pair_node pr) = getConvertLocation (mappingItem_position m)"
    and "parent (pair_node pr) = par"
  using assms
  by (cases m; auto simp: mkNode_def locationsOf_def split: sum.splits)+

lemma convertAnchorAndTag_cases:
  obtains an tg s1 where "convertAnchorAndTag a t code par doc s = (an, tg, s1)"
  by (cases "convertAnchorAndTag a t code par doc s") auto

lemma convertContentNode_parent:
  assumes "convertContentNode c y code par doc s = Inr (r, s')"
  shows "parent (node r) = par \<and> nid (node r) = nextRef s"
  using assms
  by (cases c)
    (auto simp: convertMapping_def convertFlowMapping_def convertSequence_def
      convertFlowSequence_def convertPlain_def convertQuoteDouble_def convertQuoteSingle_def
      convertBlockLiteral_def convertBlockFolded_def convertAlias_def mkNode_def Let_def
      split: sum.splits prod.splits if_splits)

lemma flowSequenceChild_entries:
  assumes "convertFlowSequenceChild n y code ast par doc s = Inr (es, s')"
  shows "flowSequenceEntries y code ast par doc n es"
proof (cases n)
  case (FlowSequenceItem i)
  obtain p ch where i: "i = SequenceItemNode p ch" by (cases i)
  show ?thesis
  proof (cases ch)
    case Nil
    with assms show ?thesis
      unfolding FlowSequenceItem i flowSequenceEntries_def by simp
  next
    case (Cons c cs)
    with assms obtain e where
      "convertContentNode c y code ast doc s = Inr (e, s')" and "es = [e]"
      unfolding FlowSequenceItem i by (auto split: sum.splits)
    then show ?thesis
      unfolding FlowSequenceItem i flowSequenceEntries_def Cons by auto
  qed
next
  case (FlowMappingItem m)
  from assms obtain pr where
    pr: "convertMappingItem m y code (nextRef s) doc (alloc s) = Inr (pr, s')" and
    es: "es = [YAMLMapping block [pr] None None
                 (mkNode (getConvertLocation (mappingItem_position m)) (nextRef s) par)]"
    unfolding FlowMappingItem by (auto split: sum.splits)
  then show ?thesis unfolding FlowMappingItem flowSequenceEntries_def by auto
qed

lemma flowSequenceChild_parents:
  assumes "convertFlowSequenceChild n y code ast par doc s = Inr (es, s')"
  shows "flowSequenceParents par ast n es"
proof (cases n)
  case (FlowSequenceItem i)
  obtain p ch where i: "i = SequenceItemNode p ch" by (cases i)
  show ?thesis using assms unfolding FlowSequenceItem i flowSequenceParents_def
    by (cases ch) (auto split: sum.splits dest: convertContentNode_parent)
next
  case (FlowMappingItem m)
  from assms obtain pr where
    pr: "convertMappingItem m y code (nextRef s) doc (alloc s) = Inr (pr, s')" and
    es: "es = [YAMLMapping block [pr] None None
                 (mkNode (getConvertLocation (mappingItem_position m)) (nextRef s) par)]"
    unfolding FlowMappingItem by (auto split: sum.splits)
  show ?thesis unfolding FlowMappingItem flowSequenceParents_def es
    using convertMappingItem_node(2)[OF pr] by (simp add: mkNode_def)
qed

lemma convertFlowSequence_entries:
  assumes "convertContentNode (FlowSequenceNode p ch a t) y code par doc s = Inr (r, s')"
  obtains es s1 where
    "forEach (map (\<lambda>n. convertFlowSequenceChild n y code (nextRef s) par doc) ch) (alloc s)
       = Inr (es, s1)"
    and "entries r = concat es" and "nid (node r) = nextRef s" and "parent (node r) = par"
  using assms
  by (auto simp: convertFlowSequence_def mkNode_def split: sum.splits prod.splits)

subsection \<open>Plain scalars\<close>

lemma convertPlain_token:
  "last (tokens (snd (convertPlain y p v a t code par doc s))) =
     \<lparr>range = range (getConvertLocation p), loc = loc (getConvertLocation p),
      type = plainTokenType (plainTokenValue y v),
      value = slice code (fst (range (getConvertLocation p))) (snd (range (getConvertLocation p)))\<rparr>"
  by (simp add: convertPlain_def Let_def addToken_def split: prod.splits)

lemma n_str_123_converted:
  "case convertRoot n_str_123_tree
          \<lparr>parse = (\<lambda>s. if s = js ''123'' then JNumber (Finite 123) else f s),
           parseDocument_toJSON = g, parseInt10 = h\<rparr> n_str_123 of
     Inl e \<Rightarrow> False
   | Inr prog \<Rightarrow>
       map (\<lambda>pr. map_option
                   (\<lambda>e. scalar_value
                          \<lparr>parse = (\<lambda>s. if s = js ''123'' then JNumber (Finite 123) else f s),
                           parseDocument_toJSON = g, parseInt10 = h\<rparr> (scalar e))
                   (pair_value pr))
         (concat (map documentPairs (body prog))) = [Some (JString (js ''123''))]
       \<and> map (\<lambda>t. (type t, value t)) (filter (\<lambda>t. range t = (9, 12)) (program_tokens prog))
           = [(Numeric, js ''123'')]"
  by code_simp

subsection \<open>The numeric patterns on examples\<close>

lemma needParse_examples:
  "needParse (js ''0o17'') \<and> needParse (js ''-12'') \<and> needParse (js ''0xFf'')
   \<and> needParse (js ''-.INF'') \<and> needParse (js ''.NaN'') \<and> needParse (js ''1.e+5'')
   \<and> needParse (js ''.5'') \<and> needParse (js ''5.'') \<and> \<not> needParse (js ''+.nan'')
   \<and> \<not> needParse (js ''.'') \<and> \<not> needParse (js ''0o8'') \<and> \<not> needParse (js ''1e5x'')
   \<and> \<not> needParse (js ''true'') \<and> \<not> needParse []"
  by code_simp

subsection \<open>The examples, converted\<close>

text \<open>
  In \<open>same_anchor_twice\<close> the two anchors are converted in the order of the source and
  the registry holds the second; \<open>toString\<close> is read from the prototype of the object. In
  \<open>proto_anchor\<close> the first anchor becomes the prototype of the registry, not a property
  of its own, and the properties of that node are read through the registry. In \<open>flow_pair_and_scalar\<close> the sequence is object 1,
  the mapping made for the pair is object 2 with parent 0 and its pair has parent 2; the
  scalar \<open>c\<close> has the sequence as parent.
\<close>

lemma example_sources:
  "astral_key = [0x22, 0xD83D, 0xDE00, 0x22, 0x3A, 0x20, 0x62]
   \<and> astral_comment = [0x23, 0x20, 0xD83D, 0xDE00, 0x0A, 0x61, 0x3A, 0x20, 0x62]
   \<and> ends_with_dot = [0x61, 0x3A, 0x20, 0x62, 0x2E]"
  by code_simp

lemma same_anchor_twice_registry:
  "case convertDocument same_anchor_twice_document yaml_123 same_anchor_twice 0 initialState of
     Inl e \<Rightarrow> False
   | Inr (d, s') \<Rightarrow>
       map (range \<circ> anchor_node) (convertedDocumentAnchors d) = [(2, 4), (9, 11)]
       \<and> (case getProperty (anchors d) (js ''a'') of
            AnchorValue an \<Rightarrow> range (anchor_node an) = (9, 11)
          | _ \<Rightarrow> False)
       \<and> getProperty (anchors d) (js ''b'') = UndefinedValue
       \<and> getProperty (anchors d) (js ''toString'') = InheritedValue"
  by code_simp

lemma proto_anchor_registry:
  "case convertDocument proto_anchor_document yaml_123 proto_anchor 0 initialState of
     Inl e \<Rightarrow> False
   | Inr (d, s') \<Rightarrow>
       map name (convertedDocumentAnchors d) = [js ''__proto__'', js ''a'']
       \<and> (case own (anchors d) (js ''__proto__'') of Some an \<Rightarrow> False | None \<Rightarrow> True)
       \<and> (case getProperty (anchors d) (js ''__proto__'') of
            AnchorValue an \<Rightarrow> range (anchor_node an) = (2, 12)
          | _ \<Rightarrow> False)
       \<and> (case own (anchors d) (js ''a'') of
            Some an \<Rightarrow> range (anchor_node an) = (17, 19)
          | None \<Rightarrow> False)
       \<and> getProperty (anchors d) (js ''name'') = InheritedValue
       \<and> getProperty (anchors d) (js ''b'') = UndefinedValue"
  by code_simp

lemma flow_pair_and_scalar_converted:
  "case convertContentNode (FlowSequenceNode (span1 0 9) flow_pair_and_scalar_children None None)
          yaml_123 flow_pair_and_scalar 0 0 initialState of
     Inl e \<Rightarrow> False
   | Inr (r, s') \<Rightarrow>
       nid (node r) = 1
       \<and> map (\<lambda>e. case e of
                    YAMLMapping st ps an tg nd \<Rightarrow>
                      (True, nid nd, parent nd, map (parent \<circ> pair_node) ps)
                  | _ \<Rightarrow> (False, nid (node e), parent (node e), []))
             (entries r)
           = [(True, 2, 0, [2]), (False, 6, 1, [])]"
  by code_simp

section \<open>The claims\<close>

text \<open>
  C1. The token that \<open>convertPlain\<close> emits for a plain scalar is the last one it pushes.
  Whatever the tag \<open>t\<close> of the node is, its type is read from the raw text \<open>v\<close> alone:
  \<open>Boolean\<close> for one of the six spellings of true and false, \<open>Null\<close> for one of the four
  of null; for a text in the language of one of the six numeric patterns, \<open>Numeric\<close> when
  \<open>yaml.parse\<close> reads it as a finite number other than zero, \<open>Boolean\<close> when it reads it
  as true, and \<open>Identifier\<close> for any other reading; \<open>Identifier\<close> for any other text.
  For the input \<open>n: !!str 123\<close>, with a \<open>yaml.parse\<close> that reads \<open>123\<close> as the number
  123, the value of the scalar is the string \<open>123\<close> and the token at its range is
  \<open>Numeric\<close>.
\<close>

theorem C1_plain_token_type_pre_tag:
  assumes "parse y (js ''123'') = JNumber (Finite 123)"
  shows "type (last (tokens (snd (convertPlain y' p v a t code par doc s))))
           = (if v = js ''true'' \<or> v = js ''True'' \<or> v = js ''TRUE''
                 \<or> v = js ''false'' \<or> v = js ''False'' \<or> v = js ''FALSE'' then Boolean
              else if v = js ''null'' \<or> v = js ''Null'' \<or> v = js ''NULL'' \<or> v = js ''~''
              then Null
              else if v \<in> lang re_oct \<or> v \<in> lang re_int \<or> v \<in> lang re_hex
                      \<or> v \<in> lang re_nan \<or> v \<in> lang re_exp \<or> v \<in> lang re_float
              then (case parse y' v of
                      JBoolean b \<Rightarrow> if b then Boolean else Identifier
                    | JNumber n \<Rightarrow>
                        (case n of
                           Finite q \<Rightarrow> if q = 0 then Identifier else Numeric
                         | _ \<Rightarrow> Identifier)
                    | _ \<Rightarrow> Identifier)
              else Identifier)
       \<and> (case convertRoot n_str_123_tree y n_str_123 of
             Inl e \<Rightarrow> False
           | Inr prog \<Rightarrow>
               map (\<lambda>pr. map_option (\<lambda>e. scalar_value y (scalar e)) (pair_value pr))
                 (concat (map documentPairs (body prog))) = [Some (JString (js ''123''))]
               \<and> map (\<lambda>t. (type t, value t))
                     (filter (\<lambda>t. range t = (9, 12)) (program_tokens prog))
                   = [(Numeric, js ''123'')])"
proof -
  have "(\<lambda>s. if s = js ''123'' then JNumber (Finite 123) else parse y s) = parse y"
    using assms by auto
  then have eq: "\<lparr>parse = (\<lambda>s. if s = js ''123'' then JNumber (Finite 123) else parse y s),
      parseDocument_toJSON = parseDocument_toJSON y, parseInt10 = parseInt10 y\<rparr> = y"
    by simp
  have scenario: "case convertRoot n_str_123_tree y n_str_123 of
             Inl e \<Rightarrow> False
           | Inr prog \<Rightarrow>
               map (\<lambda>pr. map_option (\<lambda>e. scalar_value y (scalar e)) (pair_value pr))
                 (concat (map documentPairs (body prog))) = [Some (JString (js ''123''))]
               \<and> map (\<lambda>t. (type t, value t))
                     (filter (\<lambda>t. range t = (9, 12)) (program_tokens prog))
                   = [(Numeric, js ''123'')]"
    using n_str_123_converted[of "parse y" "parseDocument_toJSON y" "parseInt10 y"]
    unfolding eq .
  have chain: "plainTokenType (plainTokenValue y' v)
           = (if v = js ''true'' \<or> v = js ''True'' \<or> v = js ''TRUE''
                 \<or> v = js ''false'' \<or> v = js ''False'' \<or> v = js ''FALSE'' then Boolean
              else if v = js ''null'' \<or> v = js ''Null'' \<or> v = js ''NULL'' \<or> v = js ''~''
              then Null
              else if v \<in> lang re_oct \<or> v \<in> lang re_int \<or> v \<in> lang re_hex
                      \<or> v \<in> lang re_nan \<or> v \<in> lang re_exp \<or> v \<in> lang re_float
              then (case parse y' v of
                      JBoolean b \<Rightarrow> if b then Boolean else Identifier
                    | JNumber n \<Rightarrow>
                        (case n of
                           Finite q \<Rightarrow> if q = 0 then Identifier else Numeric
                         | _ \<Rightarrow> Identifier)
                    | _ \<Rightarrow> Identifier)
              else Identifier)"
  proof (cases "parse y' v")
    case (JNumber n)
    then show ?thesis
      by (cases n)
        (simp_all add: plainTokenValue_def plainTokenType_def needParse_def test_lang
          isTrue_def isFalse_def isNull_def)
  next
    case (JBoolean b)
    then show ?thesis
      by (cases b)
        (simp_all add: plainTokenValue_def plainTokenType_def needParse_def test_lang
          isTrue_def isFalse_def isNull_def)
  qed (simp_all add: plainTokenValue_def plainTokenType_def needParse_def test_lang
      isTrue_def isFalse_def isNull_def)
  show ?thesis
    unfolding convertPlain_token using chain scenario by simp
qed

theorem C1_plain_token_type_pre_tag_witness:
  "parse yaml_123 (js ''123'') = JNumber (Finite 123)
   \<and> type (last (tokens (snd (convertPlain yaml_123 (span1 9 12) (js ''123'') None
         (Some (TagNode (span1 3 8) (js ''tag:yaml.org,2002:str''))) n_str_123 5 2
         initialState))))
       = Numeric
   \<and> (case convertRoot n_str_123_tree yaml_123 n_str_123 of
         Inl e \<Rightarrow> False
       | Inr prog \<Rightarrow>
           map (\<lambda>pr. map_option (\<lambda>e. scalar_value yaml_123 (scalar e)) (pair_value pr))
             (concat (map documentPairs (body prog))) = [Some (JString (js ''123''))]
           \<and> map (\<lambda>t. (type t, value t))
                 (filter (\<lambda>t. range t = (9, 12)) (program_tokens prog))
               = [(Numeric, js ''123'')])"
proof -
  have h: "parse yaml_123 (js ''123'') = JNumber (Finite 123)"
    by (simp add: yaml_123_def)
  have "test re_int (js ''123'')" by code_simp
  then have m: "js ''123'' \<in> lang re_int" by (simp only: test_lang)
  have d: "js ''123'' \<noteq> js ''true''" "js ''123'' \<noteq> js ''True''" "js ''123'' \<noteq> js ''TRUE''"
    "js ''123'' \<noteq> js ''false''" "js ''123'' \<noteq> js ''False''" "js ''123'' \<noteq> js ''FALSE''"
    "js ''123'' \<noteq> js ''null''" "js ''123'' \<noteq> js ''Null''" "js ''123'' \<noteq> js ''NULL''"
    "js ''123'' \<noteq> js ''~''"
    by code_simp+
  note w = C1_plain_token_type_pre_tag[OF h, of yaml_123 "span1 9 12" "js ''123''" None
      "Some (TagNode (span1 3 8) (js ''tag:yaml.org,2002:str''))" n_str_123 5 2 initialState]
  have t: "type (last (tokens (snd (convertPlain yaml_123 (span1 9 12) (js ''123'') None
         (Some (TagNode (span1 3 8) (js ''tag:yaml.org,2002:str''))) n_str_123 5 2
         initialState)))) = Numeric"
    using conjunct1[OF w] by (simp only: d m h if_True if_False simp_thms jsvalue.case jsnumber.case) simp
  show ?thesis
    by (rule conjI[OF h conjI[OF t conjunct2[OF w]]])
qed

text \<open>
  C2 (failing input). The source is \<open># X\<close>, a newline and \<open>a: b\<close>, where \<open>X\<close> is
  U+1F600. Blanking the comment replaces its four code units by three spaces, so the text
  that the tokens are cut from is one code unit short: the token of the key \<open>a\<close>, at
  range \<open>[5, 6)\<close>, has the value \<open>:\<close>, and the token of \<open>b\<close>, at \<open>[8, 9)\<close>, the empty
  value. The last component is the source text at the range of the token.
\<close>

theorem C2_token_value_differs_from_source:
  "case convertRoot astral_comment_tree y astral_comment of
     Inl e \<Rightarrow> False
   | Inr prog \<Rightarrow>
       map (tokenSummary astral_comment) (program_tokens prog) =
         [(Identifier, (5, 6), js '':'', js ''a''), (Identifier, (8, 9), [], js ''b'')]"
  by code_simp

text \<open>
  C3 (failing input). The source is \<open>"X": b\<close>, where \<open>X\<close> is U+1F600. Blanking
  the \<open>String\<close> token of the key replaces its four code units by three spaces, so the
  scan finds the colon at offset 3 instead of 4: the \<open>Punctuator\<close> token lies inside the
  range of the \<open>String\<close> token.
\<close>

theorem C3_tokens_overlap:
  "case convertRoot astral_key_tree y astral_key of
     Inl e \<Rightarrow> False
   | Inr prog \<Rightarrow>
       map (\<lambda>t. (type t, range t)) (program_tokens prog) =
         [(String, (0, 4)), (Punctuator, (3, 4)), (Identifier, (6, 7))]"
  by code_simp

text \<open>
  C4. The value of an untagged plain scalar with raw text \<open>v\<close>: \<open>true\<close> for the three
  spellings of true, \<open>false\<close> for those of false, \<open>null\<close> for those of null and \<open>~\<close>;
  otherwise, when \<open>v\<close> is in the language of one of the six numeric patterns, the result of
  \<open>yaml.parse\<close> unless it is falsy, and the raw string then; the raw string in every other
  case.
\<close>

theorem C4_untagged_plain_value:
  "scalar_value y (scalar (fst (convertPlain y p v a None code par doc s))) =
     (if v = js ''true'' \<or> v = js ''True'' \<or> v = js ''TRUE'' then JBoolean True
      else if v = js ''false'' \<or> v = js ''False'' \<or> v = js ''FALSE'' then JBoolean False
      else if v = js ''null'' \<or> v = js ''Null'' \<or> v = js ''NULL'' \<or> v = js ''~'' then JNull
      else if v \<in> lang re_oct \<or> v \<in> lang re_int \<or> v \<in> lang re_hex \<or> v \<in> lang re_nan
              \<or> v \<in> lang re_exp \<or> v \<in> lang re_float
           then (if truthy (parse y v) then parse y v else JString v)
      else JString v)"
  by (simp add: convertPlain_def plainTokenValue_def isTrue_def isFalse_def isNull_def
      needParse_def test_lang Let_def split: prod.splits)

text \<open>
  C5. The value of an untagged double-quoted or single-quoted scalar is the string
  \<open>node.value\<close>, the decoded content, whatever it looks like.
\<close>

theorem C5_untagged_quoted_value:
  "scalar_value y (scalar (fst (convertQuoteDouble p v a None code par doc s))) = JString v
   \<and> scalar_value y (scalar (fst (convertQuoteSingle p v a None code par doc s))) = JString v"
  by (simp add: convertQuoteDouble_def convertQuoteSingle_def Let_def split: prod.splits)

text \<open>
  C6. When a document has been converted, the anchor nodes of the result are those of the
  anchors of the document that the walk converts, with their names and locations, in the
  order of the walk, and a node converted later is a later object. At every name that
  one of them has, reading the \<open>anchors\<close> object of the document gives the last of them
  with that name; at any other name the object has no property of its own and no anchor
  node is read (it is the object literal \<open>{}\<close>, so what it inherits is still read there,
  and the name \<open>__proto__\<close> is read and assigned through the accessor of the prototype).
  \<open>convertAnchor\<close> has no error result: it assigns the new node at the name, over
  whatever the object held there.
\<close>

theorem C6_anchor_registry_last_wins:
  assumes "convertDocument n y code par s = Inr (d, s')"
  shows "map anchorKey (convertedDocumentAnchors d) = map upstreamKey (walkedDocumentAnchors n)
       \<and> sorted_wrt (<) (map (nid \<circ> anchor_node) (convertedDocumentAnchors d))
       \<and> (\<forall>nm. case lastNamed nm (convertedDocumentAnchors d) of
                  Some a \<Rightarrow> getProperty (anchors d) nm = AnchorValue a
                | None \<Rightarrow>
                    own (anchors d) nm = None
                    \<and> (\<forall>x. getProperty (anchors d) nm \<noteq> AnchorValue x))
       \<and> doc_anchors (snd (convertAnchor a code0 par0 doc0 s0)) doc0
           = setProperty (doc_anchors s0 doc0) (anchor_value a)
               (fst (convertAnchor a code0 par0 doc0 s0))"
proof -
  obtain p h q ch where n: "n = DocumentNode p h (DocumentBodyNode q ch)"
    by (cases n) (metis DocumentBody.exhaust)
  define ast where "ast = nextRef s"
  define st0 where "st0 = (alloc s)\<lparr>doc_anchors := (doc_anchors s)(ast := emptyObject)\<rparr>"
  obtain ds s1 where h: "convertDocumentHead h code ast st0 = (ds, s1)" by force
  from assms obtain c s2 where
    b: "convertDocumentBody (DocumentBodyNode q ch) y code ast s1 = Inr (c, s2)" and
    d: "anchors d = doc_anchors s' ast" "content d = c" and
    s': "s' = (if charAt code (snd (range (getConvertLocation p)) - 1) = Some 0x2E
               then addToken Marker (markerLoc (getConvertLocation p)) code s2 else s2)"
    unfolding n convertDocument_def
    by (auto simp: Let_def h ast_def[symmetric] st0_def[symmetric] split: sum.splits)
  have A: "tracks ast st0 s1 [] []" using h by (rule tracks_convertDocumentHead)
  have B: "tracks ast s1 s2 (convertedDocumentAnchors d) (walkedDocumentAnchors n)"
    using tracks_convertDocumentBody[OF b]
    by (simp add: convertedDocumentAnchors_def walkedDocumentAnchors_def d n)
  have C: "tracks ast s2 s' [] []" unfolding s' by (auto intro: tracks_same)
  have t: "tracks ast st0 s' (convertedDocumentAnchors d) (walkedDocumentAnchors n)"
    using tracks_trans[OF tracks_trans[OF A B] C] by simp
  have 1: "map anchorKey (convertedDocumentAnchors d) = map upstreamKey (walkedDocumentAnchors n)"
    and 2: "sorted_wrt (<) (map (nid \<circ> anchor_node) (convertedDocumentAnchors d))"
    and obj: "doc_anchors s' ast = foldl (\<lambda>obj a. setProperty obj (name a) a)
        (doc_anchors st0 ast) (convertedDocumentAnchors d)"
    using t unfolding tracks_def by simp_all
  have "doc_anchors st0 ast = emptyObject" by (simp add: st0_def)
  with obj d have "anchors d = foldl (\<lambda>obj a. setProperty obj (name a) a) emptyObject
      (convertedDocumentAnchors d)"
    by simp
  then have 3: "\<forall>nm. case lastNamed nm (convertedDocumentAnchors d) of
                  Some a \<Rightarrow> getProperty (anchors d) nm = AnchorValue a
                | None \<Rightarrow>
                    own (anchors d) nm = None
                    \<and> (\<forall>x. getProperty (anchors d) nm \<noteq> AnchorValue x)"
    using registry_of_empty by blast
  have 4: "doc_anchors (snd (convertAnchor a code0 par0 doc0 s0)) doc0
           = setProperty (doc_anchors s0 doc0) (anchor_value a)
               (fst (convertAnchor a code0 par0 doc0 s0))"
    by (simp add: convertAnchor_def Let_def addToken_def alloc_def)
  from 1 2 3 4 show ?thesis by (intro conjI)
qed

theorem C6_anchor_registry_last_wins_witness:
  "\<exists>d s'. convertDocument same_anchor_twice_document yaml_123 same_anchor_twice 0 initialState
            = Inr (d, s')
        \<and> map anchorKey (convertedDocumentAnchors d)
            = map upstreamKey (walkedDocumentAnchors same_anchor_twice_document)
        \<and> sorted_wrt (<) (map (nid \<circ> anchor_node) (convertedDocumentAnchors d))
        \<and> (\<forall>nm. case lastNamed nm (convertedDocumentAnchors d) of
                   Some a \<Rightarrow> getProperty (anchors d) nm = AnchorValue a
                 | None \<Rightarrow>
                    own (anchors d) nm = None
                    \<and> (\<forall>x. getProperty (anchors d) nm \<noteq> AnchorValue x))
        \<and> doc_anchors
              (snd (convertAnchor (AnchorNode (span 2 7 9 2 7 11) (js ''a'')) same_anchor_twice
                      3 1 initialState)) 1
            = setProperty (doc_anchors initialState 1)
                (anchor_value (AnchorNode (span 2 7 9 2 7 11) (js ''a'')))
                (fst (convertAnchor (AnchorNode (span 2 7 9 2 7 11) (js ''a''))
                        same_anchor_twice 3 1 initialState))"
proof -
  have "outcome (unsupportedDocument same_anchor_twice_document)
          (convertDocument same_anchor_twice_document yaml_123 same_anchor_twice 0 initialState)"
    by (rule outcome_convertDocument)
  then obtain d s' where
    eq: "convertDocument same_anchor_twice_document yaml_123 same_anchor_twice 0 initialState
           = Inr (d, s')"
    by (auto simp: same_anchor_twice_document_def unsupportedDocument_def)
  note w = C6_anchor_registry_last_wins[OF eq,
      where a = "AnchorNode (span 2 7 9 2 7 11) (js ''a'')" and ?code0.0 = same_anchor_twice
        and ?par0.0 = 3 and ?doc0.0 = 1 and ?s0.0 = initialState]
  show ?thesis by (rule exI[of _ d], rule exI[of _ s'], rule conjI[OF eq w])
qed

text \<open>
  C7 (failing input). The source is \<open>a: b.\<close> and the document ends at its end. The
  last character of the range of the document is a full stop, so a \<open>Marker\<close> token is
  emitted for the last three characters \<open> b.\<close>, which are not the marker \<open>...\<close>.
\<close>

theorem C7_marker_without_marker_sequence:
  "case convertRoot ends_with_dot_tree y ends_with_dot of
     Inl e \<Rightarrow> False
   | Inr prog \<Rightarrow>
       map (tokenSummary ends_with_dot) (program_tokens prog) =
         [(Identifier, (0, 1), js ''a'', js ''a''), (Punctuator, (1, 2), js '':'', js '':''),
          (Marker, (2, 5), js '' b.'', js '' b.''), (Identifier, (3, 5), js ''b.'', js ''b.'')]"
  by code_simp

text \<open>
  C8. A content node outside the dispatch table makes \<open>convertContentNode\<close> throw
  \<open>Unsupported node\<close> with its type, and nothing catches the error: when the walk
  reaches such a node, \<open>convertRoot\<close> fails with the error of the first one. When it
  reaches none, \<open>convertRoot\<close> returns a program, whatever the scalars and the tags are
  and whatever \<open>yaml.parse\<close> returns.
\<close>

theorem C8_unsupported_node_is_the_only_failure:
  "convertContentNode (OtherNode ty) y code par doc s = Inl (UnsupportedNode ty)
   \<and> (case unsupportedRoot n of
        Some k \<Rightarrow> convertRoot n y code' = Inl (UnsupportedNode k)
      | None \<Rightarrow> (\<exists>prog. convertRoot n y code' = Inr prog))"
proof -
  obtain p ch cs where n: "n = RootNode p ch cs" by (cases n)
  have "outcome (firstSome (map unsupportedDocument ch))
          (forEach (map (\<lambda>d. convertDocument d y (stripCommentCode cs code') 0) ch) initialState)"
    by (rule outcome_forEach) (rule outcome_convertDocument)
  then show ?thesis
    by (cases "firstSome (map unsupportedDocument ch)")
      (auto simp: n unsupportedRoot_def convertRoot_def Let_def)
qed

text \<open>
  C9. The entries of a converted flow sequence are what its children contribute, in
  order. A pair (\<open>FlowMappingItem\<close>) contributes one block mapping with no anchor and no
  tag, at the location of the pair and with the parent of the sequence, whose only pair is
  the result of \<open>convertMappingItem\<close> on that item, with the mapping for parent. An item
  with no body contributes nothing; an item with a body contributes the conversion of its
  first child, with the sequence for parent. The entries are of the type of content nodes,
  which has no pair.
\<close>

theorem C9_flow_sequence_entries:
  assumes "convertContentNode (FlowSequenceNode p ch a t) y code par doc s = Inr (r, s')"
  shows "\<exists>es. entries r = concat es
            \<and> list_all2 (flowSequenceEntries y code (nid (node r)) par doc) ch es"
proof -
  from assms obtain es s1 where
    loop: "forEach (map (\<lambda>n. convertFlowSequenceChild n y code (nextRef s) par doc) ch) (alloc s)
             = Inr (es, s1)" and
    r: "entries r = concat es" and ast: "nid (node r) = nextRef s"
    by (rule convertFlowSequence_entries)
  have "list_all2 (flowSequenceEntries y code (nextRef s) par doc) ch es"
    by (rule forEach_list_all2[OF _ loop]) (rule flowSequenceChild_entries)
  with r ast show ?thesis by auto
qed

theorem C9_flow_sequence_entries_witness:
  "\<exists>r s'. convertContentNode (FlowSequenceNode (span1 0 9) flow_pair_and_scalar_children None None)
             yaml_123 flow_pair_and_scalar 0 0 initialState = Inr (r, s')
        \<and> (\<exists>es. entries r = concat es
                \<and> list_all2 (flowSequenceEntries yaml_123 flow_pair_and_scalar (nid (node r)) 0 0)
                      flow_pair_and_scalar_children es)"
proof -
  have "outcome
          (unsupportedContent
             (FlowSequenceNode (span1 0 9) flow_pair_and_scalar_children None None))
          (convertContentNode
             (FlowSequenceNode (span1 0 9) flow_pair_and_scalar_children None None)
             yaml_123 flow_pair_and_scalar 0 0 initialState)"
    by (rule outcome_walk(1))
  then obtain r s' where
    eq: "convertContentNode (FlowSequenceNode (span1 0 9) flow_pair_and_scalar_children None None)
           yaml_123 flow_pair_and_scalar 0 0 initialState = Inr (r, s')"
    by (auto simp: flow_pair_and_scalar_children_def)
  note w = C9_flow_sequence_entries[OF eq]
  show ?thesis by (rule exI[of _ r], rule exI[of _ s'], rule conjI[OF eq w])
qed

text \<open>
  C10. In a converted flow sequence with parent \<open>par\<close>, an object that exists before the
  sequence is created, the mapping made for a pair has the parent \<open>par\<close>, which is the
  parent of the sequence and not the sequence, and its pair has the mapping as parent. An
  entry that comes from an item has the sequence as parent.
\<close>

theorem C10_synthetic_mapping_parent:
  assumes "convertContentNode (FlowSequenceNode p ch a t) y code par doc s = Inr (r, s')"
    and "par < nextRef s"
  shows "\<exists>es. entries r = concat es
            \<and> list_all2 (flowSequenceParents par (nid (node r))) ch es
            \<and> parent (node r) = par \<and> nid (node r) \<noteq> par"
proof -
  from assms(1) obtain es s1 where
    loop: "forEach (map (\<lambda>n. convertFlowSequenceChild n y code (nextRef s) par doc) ch) (alloc s)
             = Inr (es, s1)" and
    r: "entries r = concat es" "nid (node r) = nextRef s" "parent (node r) = par"
    by (rule convertFlowSequence_entries)
  have "list_all2 (flowSequenceParents par (nextRef s)) ch es"
    by (rule forEach_list_all2[OF _ loop]) (rule flowSequenceChild_parents)
  with r assms(2) show ?thesis by auto
qed

theorem C10_synthetic_mapping_parent_witness:
  "(0::nat) < nextRef initialState
   \<and> (\<exists>r s'. convertContentNode
                 (FlowSequenceNode (span1 0 9) flow_pair_and_scalar_children None None)
                 yaml_123 flow_pair_and_scalar 0 0 initialState = Inr (r, s')
          \<and> (\<exists>es. entries r = concat es
                  \<and> list_all2 (flowSequenceParents 0 (nid (node r)))
                        flow_pair_and_scalar_children es
                  \<and> parent (node r) = 0 \<and> nid (node r) \<noteq> 0))"
proof -
  have lt: "(0::nat) < nextRef initialState" by (simp add: initialState_def)
  have "outcome
          (unsupportedContent
             (FlowSequenceNode (span1 0 9) flow_pair_and_scalar_children None None))
          (convertContentNode
             (FlowSequenceNode (span1 0 9) flow_pair_and_scalar_children None None)
             yaml_123 flow_pair_and_scalar 0 0 initialState)"
    by (rule outcome_walk(1))
  then obtain r s' where
    eq: "convertContentNode (FlowSequenceNode (span1 0 9) flow_pair_and_scalar_children None None)
           yaml_123 flow_pair_and_scalar 0 0 initialState = Inr (r, s')"
    by (auto simp: flow_pair_and_scalar_children_def)
  from C10_synthetic_mapping_parent[OF eq lt] eq lt show ?thesis by blast
qed

end
